theory Spec2Isabelle
  imports Main "HOL-Library.Sublist" "HOL-Library.Word"
begin

section \<open>The GitHub assistant API (api/index.js)\<close>

text \<open>
  The service is one Express application: the JSON body parser is installed for every
  request (line 19), then come five routes, four of them behind the \<open>checkApiKey\<close>
  middleware; the handlers forward to the hosting API through an Octokit client.

  Modelling decisions:
  \<^item> A JavaScript string that is only compared, concatenated and passed on (keys, paths,
    messages, actions) is modelled by \<open>string\<close>; a value that may be \<open>undefined\<close> (an
    absent header, environment variable, query parameter or body field) is an option.
  \<^item> The \<open>content\<close> field of the body is a JSON value: a string, a number, a boolean or
    null. A content string is kept as its UTF-16 code units, because \<open>Buffer.from\<close>
    encodes it to UTF-8. Arrays and objects as content, and non-string values in the
    other fields, are outside the model.
  \<^item> A request arrives with a body that the JSON body parser either rejects or turns into
    the payload the handlers read. A request without a JSON body has the empty payload.
  \<^item> The Octokit client is a parameter: three operations over an abstract remote world
    \<open>'w\<close>, each returning either a thrown error or its result, with the new world.
    The data of \<open>getContent\<close> is one entry or an array of entries, as the hosting API
    returns it.
  \<^item> Every call into the client is recorded, in order, in a call log, so that
    "no remote call" and "exactly these calls" are statements about the log.
  \<^item> A response is its status code and its body. \<open>res.json\<close> without
    \<open>res.status\<close> answers 200.
\<close>

subsection \<open>Configuration (lines 8-11)\<close>

record config =
  GITHUB_TOKEN :: "string option"
  REPO_OWNER :: "string option"
  REPO_NAME :: "string option"
  API_KEY :: "string option"

subsection \<open>Values exchanged with the hosting API\<close>

text \<open>An entry of the content listing, with the three fields the handlers read.\<close>

record content_entry =
  entry_path :: string
  entry_type :: string
  entry_sha :: string

text \<open>\<open>response.data\<close> of \<open>getContent\<close>: one entry, or an array of entries for a directory.\<close>

datatype content_data = Single content_entry | Listing "content_entry list"

text \<open>A thrown error; the handlers read only \<open>error.message\<close>.\<close>

datatype js_error = Error (message: string)

record get_args =
  g_owner :: "string option"
  g_repo :: "string option"
  g_path :: string

record delete_args =
  d_owner :: "string option"
  d_repo :: "string option"
  d_path :: string
  d_message :: string
  d_sha :: string

record write_args =
  w_owner :: "string option"
  w_repo :: "string option"
  w_path :: string
  w_message :: string
  w_content :: string
  w_sha :: "string option"

record 'w octokit =
  getContent :: "get_args \<Rightarrow> 'w \<Rightarrow> (js_error + content_data) \<times> 'w"
  deleteFile :: "delete_args \<Rightarrow> 'w \<Rightarrow> (js_error + unit) \<times> 'w"
  createOrUpdateFileContents :: "write_args \<Rightarrow> 'w \<Rightarrow> (js_error + unit) \<times> 'w"

datatype call = GetContent get_args | DeleteFile delete_args | CreateOrUpdate write_args

text \<open>An awaited call: run the operation on the world and append it to the log.\<close>

definition await_getContent ::
  "'w octokit \<Rightarrow> get_args \<Rightarrow> call list \<times> 'w \<Rightarrow> (js_error + content_data) \<times> call list \<times> 'w" where
  "await_getContent octo a s =
     (case s of (log, w) \<Rightarrow>
        (case getContent octo a w of (r, w') \<Rightarrow> (r, log @ [GetContent a], w')))"

definition await_deleteFile ::
  "'w octokit \<Rightarrow> delete_args \<Rightarrow> call list \<times> 'w \<Rightarrow> (js_error + unit) \<times> call list \<times> 'w" where
  "await_deleteFile octo a s =
     (case s of (log, w) \<Rightarrow>
        (case deleteFile octo a w of (r, w') \<Rightarrow> (r, log @ [DeleteFile a], w')))"

definition await_createOrUpdateFileContents ::
  "'w octokit \<Rightarrow> write_args \<Rightarrow> call list \<times> 'w \<Rightarrow> (js_error + unit) \<times> call list \<times> 'w" where
  "await_createOrUpdateFileContents octo a s =
     (case s of (log, w) \<Rightarrow>
        (case createOrUpdateFileContents octo a w of (r, w') \<Rightarrow> (r, log @ [CreateOrUpdate a], w')))"

subsection \<open>Requests and responses\<close>

text \<open>A JSON value in the \<open>content\<close> field; \<open>JsNumber\<close> is an integral number.\<close>

datatype js_value = JsString "16 word list" | JsNumber int | JsBool bool | JsNull

record payload =
  body_action :: "string option"
  body_path :: "string option"
  body_content :: "js_value option"
  body_message :: "string option"

text \<open>The request as it arrives: its body is rejected by the JSON parser, or parses.\<close>

datatype raw_body = Malformed | Json payload

record raw_request =
  raw_x_api_key :: "string option"
  raw_query_path :: "string option"
  raw_body :: raw_body

text \<open>The request as the middleware and the handlers see it, with \<open>req.body\<close> set.\<close>

record request =
  x_api_key :: "string option"
  query_path :: "string option"
  body :: payload

datatype json =
    JString string
  | JBool bool
  | JArray "json list"
  | JObject "(string \<times> json) list"
  | JData content_data
  | HtmlErrorPage

record response =
  status :: nat
  json_body :: json

text \<open>\<open>!v\<close> on a string that may be undefined: undefined and the empty string are falsy.\<close>

definition falsy :: "string option \<Rightarrow> bool" where
  "falsy v = (case v of None \<Rightarrow> True | Some s \<Rightarrow> s = [])"

text \<open>\<open>!v\<close> on a JSON value that may be undefined.\<close>

definition falsy_value :: "js_value option \<Rightarrow> bool" where
  "falsy_value v =
     (case v of
        None \<Rightarrow> True
      | Some (JsString s) \<Rightarrow> s = []
      | Some (JsNumber n) \<Rightarrow> n = 0
      | Some (JsBool b) \<Rightarrow> \<not> b
      | Some JsNull \<Rightarrow> True)"

text \<open>\<open>v || d\<close> with a string default.\<close>

definition or_default :: "string option \<Rightarrow> string \<Rightarrow> string" where
  "or_default v d = (case v of None \<Rightarrow> d | Some s \<Rightarrow> if s = [] then d else s)"

definition res_json :: "json \<Rightarrow> response" where
  "res_json b = \<lparr>status = 200, json_body = b\<rparr>"

definition res_status_json :: "nat \<Rightarrow> json \<Rightarrow> response" where
  "res_status_json c b = \<lparr>status = c, json_body = b\<rparr>"

text \<open>
  \<open>express.json()\<close>: a body it rejects ends the request (the error reaches the default
  error handler, which answers 400 with an HTML page); otherwise \<open>req.body\<close> is set.
\<close>

definition express_json :: "raw_request \<Rightarrow> request option" where
  "express_json raw =
     (case raw_body raw of
        Malformed \<Rightarrow> None
      | Json b \<Rightarrow> Some \<lparr>x_api_key = raw_x_api_key raw, query_path = raw_query_path raw, body = b\<rparr>)"

definition parse_failed :: response where
  "parse_failed = \<lparr>status = 400, json_body = HtmlErrorPage\<rparr>"

subsection \<open>Buffers: \<open>Buffer.from\<close> and \<open>toString('base64')\<close>\<close>

text \<open>
  \<open>Buffer.from(value)\<close> on a string is the UTF-8 encoding of its UTF-16 code units:
  a high surrogate followed by a low surrogate is one code point, and a surrogate that
  is not part of such a pair is encoded as U+FFFD. On undefined, null, a number or a
  boolean it throws a TypeError, with the message of current Node releases.
\<close>

definition is_high_surrogate :: "nat \<Rightarrow> bool" where
  "is_high_surrogate u = (0xD800 \<le> u \<and> u \<le> 0xDBFF)"

definition is_low_surrogate :: "nat \<Rightarrow> bool" where
  "is_low_surrogate u = (0xDC00 \<le> u \<and> u \<le> 0xDFFF)"

definition scalar_or_replacement :: "nat \<Rightarrow> nat" where
  "scalar_or_replacement u = (if is_high_surrogate u \<or> is_low_surrogate u then 0xFFFD else u)"

fun code_points :: "nat list \<Rightarrow> nat list" where
  "code_points [] = []"
| "code_points [u] = [scalar_or_replacement u]"
| "code_points (u # v # rest) =
     (if is_high_surrogate u \<and> is_low_surrogate v
      then (0x10000 + (u - 0xD800) * 0x400 + (v - 0xDC00)) # code_points rest
      else scalar_or_replacement u # code_points (v # rest))"

definition utf8_bytes :: "nat \<Rightarrow> nat list" where
  "utf8_bytes cp =
     (if cp < 0x80 then [cp]
      else if cp < 0x800 then [0xC0 + cp div 64, 0x80 + cp mod 64]
      else if cp < 0x10000 then [0xE0 + cp div 4096, 0x80 + (cp div 64) mod 64, 0x80 + cp mod 64]
      else [0xF0 + cp div 262144, 0x80 + (cp div 4096) mod 64, 0x80 + (cp div 64) mod 64,
            0x80 + cp mod 64])"

definition utf8_encode :: "16 word list \<Rightarrow> nat list" where
  "utf8_encode s = concat (map utf8_bytes (code_points (map unat s)))"

function show_nat :: "nat \<Rightarrow> string" where
  "show_nat n = (if n < 10 then [char_of (48 + n)] else show_nat (n div 10) @ [char_of (48 + n mod 10)])"
  by pat_completeness auto
termination
  by (relation "measure id") auto

definition show_int :: "int \<Rightarrow> string" where
  "show_int i = (if i < 0 then CHR ''-'' # show_nat (nat (- i)) else show_nat (nat i))"

definition ERR_INVALID_ARG_TYPE :: "js_value option \<Rightarrow> string" where
  "ERR_INVALID_ARG_TYPE v =
     ''The first argument must be of type string or an instance of Buffer, ArrayBuffer, or Array or an Array-like Object.'' @
     (case v of
        None \<Rightarrow> '' Received undefined''
      | Some JsNull \<Rightarrow> '' Received null''
      | Some (JsNumber n) \<Rightarrow> '' Received type number ('' @ show_int n @ '')''
      | Some (JsBool b) \<Rightarrow> '' Received type boolean ('' @ (if b then ''true'' else ''false'') @ '')''
      | Some (JsString s) \<Rightarrow> [])"

definition Buffer_from :: "js_value option \<Rightarrow> js_error + nat list" where
  "Buffer_from v =
     (case v of
        Some (JsString s) \<Rightarrow> Inr (utf8_encode s)
      | _ \<Rightarrow> Inl (Error (ERR_INVALID_ARG_TYPE v)))"

text \<open>
  \<open>toString('base64')\<close> is the RFC 4648 encoding with padding: three bytes become four
  characters of the alphabet, a final group of one or two bytes is padded with \<open>=\<close>.
\<close>

definition b64_alphabet :: string where
  "b64_alphabet = ''ABCDEFGHIJKLMNOPQRSTUVWXYZabcdefghijklmnopqrstuvwxyz0123456789+/''"

definition b64_char :: "nat \<Rightarrow> char" where
  "b64_char n = b64_alphabet ! n"

fun toString_base64 :: "nat list \<Rightarrow> string" where
  "toString_base64 [] = []"
| "toString_base64 [a] =
     [b64_char (a div 4), b64_char ((a mod 4) * 16), CHR ''='', CHR ''='']"
| "toString_base64 [a, b] =
     [b64_char (a div 4), b64_char ((a mod 4) * 16 + b div 16),
      b64_char ((b mod 16) * 4), CHR ''='']"
| "toString_base64 (a # b # c # rest) =
     [b64_char (a div 4), b64_char ((a mod 4) * 16 + b div 16),
      b64_char ((b mod 16) * 4 + c div 64), b64_char (c mod 64)] @ toString_base64 rest"

text \<open>
  The reference decoders the round trip is stated against: base64 to bytes, UTF-8 bytes
  to code points, code points to UTF-16 code units.
\<close>

definition b64_index :: "char \<Rightarrow> nat" where
  "b64_index c = length (takeWhile (\<lambda>x. x \<noteq> c) b64_alphabet)"

fun base64_decode :: "string \<Rightarrow> nat list option" where
  "base64_decode [] = Some []"
| "base64_decode (p # q # r # s # rest) =
     (let b1 = b64_index p * 4 + b64_index q div 16;
          b2 = (b64_index q mod 16) * 16 + b64_index r div 4;
          b3 = (b64_index r mod 4) * 64 + b64_index s
      in if r = CHR ''='' \<and> s = CHR ''='' then (if rest = [] then Some [b1] else None)
         else if s = CHR ''='' then (if rest = [] then Some [b1, b2] else None)
         else map_option (\<lambda>bs. b1 # b2 # b3 # bs) (base64_decode rest))"
| "base64_decode _ = None"

fun utf8_decode :: "nat list \<Rightarrow> nat list option" where
  "utf8_decode [] = Some []"
| "utf8_decode (b # bs) =
     (if b < 0x80 then map_option (\<lambda>cps. b # cps) (utf8_decode bs)
      else if b < 0xC0 then None
      else if b < 0xE0 then
        (case bs of
           c # r \<Rightarrow> map_option (\<lambda>cps. ((b - 0xC0) * 64 + (c - 0x80)) # cps) (utf8_decode r)
         | _ \<Rightarrow> None)
      else if b < 0xF0 then
        (case bs of
           c # d # r \<Rightarrow>
             map_option (\<lambda>cps. ((b - 0xE0) * 4096 + (c - 0x80) * 64 + (d - 0x80)) # cps) (utf8_decode r)
         | _ \<Rightarrow> None)
      else if b < 0xF8 then
        (case bs of
           c # d # e # r \<Rightarrow>
             map_option
               (\<lambda>cps. ((b - 0xF0) * 262144 + (c - 0x80) * 4096 + (d - 0x80) * 64 + (e - 0x80)) # cps)
               (utf8_decode r)
         | _ \<Rightarrow> None)
      else None)"

definition utf16_units :: "nat \<Rightarrow> nat list" where
  "utf16_units cp =
     (if cp < 0x10000 then [cp]
      else [0xD800 + (cp - 0x10000) div 0x400, 0xDC00 + (cp - 0x10000) mod 0x400])"

text \<open>A sequence of code units is well formed when it has no unpaired surrogate.\<close>

fun well_formed :: "nat list \<Rightarrow> bool" where
  "well_formed [] = True"
| "well_formed [u] = (\<not> is_high_surrogate u \<and> \<not> is_low_surrogate u)"
| "well_formed (u # v # rest) =
     (if is_high_surrogate u \<and> is_low_surrogate v then well_formed rest
      else \<not> is_high_surrogate u \<and> \<not> is_low_surrogate u \<and> well_formed (v # rest))"

subsection \<open>The authorization middleware (lines 22-30)\<close>

definition unauthorized :: response where
  "unauthorized = res_status_json 401 (JObject [(''error'', JString ''Unauthorized - Invalid API key'')])"

definition checkApiKey ::
  "config \<Rightarrow> request \<Rightarrow> ('w \<Rightarrow> response \<times> call list \<times> 'w) \<Rightarrow> 'w \<Rightarrow> response \<times> call list \<times> 'w" where
  "checkApiKey cfg req next w =
     (let providedKey = x_api_key req
      in if falsy providedKey \<or> providedKey \<noteq> API_KEY cfg
         then (unauthorized, [], w)
         else next w)"

subsection \<open>The handlers (lines 33-154)\<close>

text \<open>The string held by a field that has passed the truthiness check.\<close>

definition str_val :: "string option \<Rightarrow> string" where
  "str_val v = (case v of None \<Rightarrow> [] | Some s \<Rightarrow> s)"

text \<open>\<open>response.data.sha\<close>: an array has no such property.\<close>

definition data_sha :: "content_data \<Rightarrow> string option" where
  "data_sha d = (case d of Single e \<Rightarrow> Some (entry_sha e) | Listing items \<Rightarrow> None)"

definition error_500 :: "js_error \<Rightarrow> response" where
  "error_500 error = res_status_json 500 (JObject [(''error'', JString (message error))])"

definition api_root :: "'w \<Rightarrow> response \<times> call list \<times> 'w" where
  "api_root w = (res_json (JObject [(''message'', JString ''GitHub Assistant API is running!'')]), [], w)"

definition api_list :: "config \<Rightarrow> 'w octokit \<Rightarrow> request \<Rightarrow> 'w \<Rightarrow> response \<times> call list \<times> 'w" where
  "api_list cfg octo req w =
     (let path = or_default (query_path req) []
      in case await_getContent octo
                \<lparr>g_owner = REPO_OWNER cfg, g_repo = REPO_NAME cfg, g_path = path\<rparr> ([], w) of
           (Inr data, s) \<Rightarrow> (res_json (JData data), s)
         | (Inl error, s) \<Rightarrow> (error_500 error, s))"

text \<open>The loop over the directory listing (lines 81-97); \<open>results\<close> is the array pushed to.\<close>

fun delete_each ::
  "config \<Rightarrow> 'w octokit \<Rightarrow> content_entry list \<Rightarrow> json list \<Rightarrow> call list \<times> 'w
     \<Rightarrow> json list \<times> call list \<times> 'w" where
  "delete_each cfg octo [] results s = (results, s)"
| "delete_each cfg octo (item # rest) results s =
     (if entry_type item = ''file''
      then (case await_deleteFile octo
                   \<lparr>d_owner = REPO_OWNER cfg, d_repo = REPO_NAME cfg, d_path = entry_path item,
                    d_message = ''Delete '' @ entry_path item, d_sha = entry_sha item\<rparr> s of
              (Inr u, s') \<Rightarrow>
                delete_each cfg octo rest
                  (results @ [JObject [(''success'', JBool True), (''path'', JString (entry_path item))]]) s'
            | (Inl error, s') \<Rightarrow>
                delete_each cfg octo rest
                  (results @ [JObject [(''error'', JString (message error)), (''path'', JString (entry_path item))]]) s')
      else delete_each cfg octo rest results s)"

definition api_delete :: "config \<Rightarrow> 'w octokit \<Rightarrow> request \<Rightarrow> 'w \<Rightarrow> response \<times> call list \<times> 'w" where
  "api_delete cfg octo req w =
     (let path = body_path (body req)
      in if falsy path
         then (res_status_json 400 (JObject [(''error'', JString ''Path is required'')]), [], w)
         else
           (case await_getContent octo
                   \<lparr>g_owner = REPO_OWNER cfg, g_repo = REPO_NAME cfg, g_path = str_val path\<rparr> ([], w) of
              (Inl error, s) \<Rightarrow>
                (res_status_json 404
                   (JObject [(''error'', JString (''File not found: '' @ message error))]), s)
            | (Inr fileData, s) \<Rightarrow>
                (case fileData of
                   Listing items \<Rightarrow>
                     (case delete_each cfg octo items [] s of
                        (results, s') \<Rightarrow>
                          (res_json (JObject [(''success'', JBool True), (''results'', JArray results),
                                              (''message'', JString (''Processed directory '' @ str_val path))]),
                           s'))
                 | Single file \<Rightarrow>
                     (case await_deleteFile octo
                             \<lparr>d_owner = REPO_OWNER cfg, d_repo = REPO_NAME cfg, d_path = str_val path,
                              d_message = ''Delete '' @ str_val path, d_sha = entry_sha file\<rparr> s of
                        (Inr u, s') \<Rightarrow>
                          (res_json (JObject [(''success'', JBool True),
                                              (''message'', JString (''Deleted file '' @ str_val path))]),
                           s')
                      | (Inl error, s') \<Rightarrow> (error_500 error, s')))))"

definition api_create :: "config \<Rightarrow> 'w octokit \<Rightarrow> request \<Rightarrow> 'w \<Rightarrow> response \<times> call list \<times> 'w" where
  "api_create cfg octo req w =
     (let path = body_path (body req);
          content = body_content (body req);
          msg = body_message (body req)
      in if falsy path \<or> falsy_value content
         then (res_status_json 400 (JObject [(''error'', JString ''Path and content are required'')]), [], w)
         else
           (case await_getContent octo
                   \<lparr>g_owner = REPO_OWNER cfg, g_repo = REPO_NAME cfg, g_path = str_val path\<rparr> ([], w) of
              (lookup, s) \<Rightarrow>
                (let sha = (case lookup of Inr data \<Rightarrow> data_sha data | Inl error \<Rightarrow> None)
                 in case Buffer_from content of
                      Inl error \<Rightarrow> (error_500 error, s)
                    | Inr buffer \<Rightarrow>
                        (case await_createOrUpdateFileContents octo
                                \<lparr>w_owner = REPO_OWNER cfg, w_repo = REPO_NAME cfg, w_path = str_val path,
                                 w_message = or_default msg (''Update '' @ str_val path),
                                 w_content = toString_base64 buffer,
                                 w_sha = sha\<rparr> s of
                           (Inr u, s') \<Rightarrow>
                             (res_json (JObject [(''success'', JBool True),
                                                 (''message'', JString (''Updated '' @ str_val path))]),
                              s')
                         | (Inl error, s') \<Rightarrow> (error_500 error, s')))))"

subsection \<open>The combined handler (lines 157-262)\<close>

text \<open>The source repeats the three handlers inside this one; so does the model.\<close>

definition invalid_action :: string where
  "invalid_action = ''Invalid action. Use 'list', 'delete', or 'create'' @ [CHR 0x27]"

fun claude_delete_each ::
  "config \<Rightarrow> 'w octokit \<Rightarrow> content_entry list \<Rightarrow> json list \<Rightarrow> call list \<times> 'w
     \<Rightarrow> json list \<times> call list \<times> 'w" where
  "claude_delete_each cfg octo [] results s = (results, s)"
| "claude_delete_each cfg octo (item # rest) results s =
     (if entry_type item = ''file''
      then (case await_deleteFile octo
                   \<lparr>d_owner = REPO_OWNER cfg, d_repo = REPO_NAME cfg, d_path = entry_path item,
                    d_message = ''Delete '' @ entry_path item, d_sha = entry_sha item\<rparr> s of
              (Inr u, s') \<Rightarrow>
                claude_delete_each cfg octo rest
                  (results @ [JObject [(''success'', JBool True), (''path'', JString (entry_path item))]]) s'
            | (Inl error, s') \<Rightarrow>
                claude_delete_each cfg octo rest
                  (results @ [JObject [(''error'', JString (message error)), (''path'', JString (entry_path item))]]) s')
      else claude_delete_each cfg octo rest results s)"

definition api_claude :: "config \<Rightarrow> 'w octokit \<Rightarrow> request \<Rightarrow> 'w \<Rightarrow> response \<times> call list \<times> 'w" where
  "api_claude cfg octo req w =
     (let action = body_action (body req);
          path = body_path (body req);
          content = body_content (body req);
          msg = body_message (body req)
      in if action = Some ''list'' then
           (case await_getContent octo
                   \<lparr>g_owner = REPO_OWNER cfg, g_repo = REPO_NAME cfg, g_path = or_default path []\<rparr> ([], w) of
              (Inr data, s) \<Rightarrow> (res_json (JData data), s)
            | (Inl error, s) \<Rightarrow> (error_500 error, s))
         else if action = Some ''delete'' then
           (if falsy path
            then (res_status_json 400 (JObject [(''error'', JString ''Path is required'')]), [], w)
            else
              (case await_getContent octo
                      \<lparr>g_owner = REPO_OWNER cfg, g_repo = REPO_NAME cfg, g_path = str_val path\<rparr> ([], w) of
                 (Inl error, s) \<Rightarrow>
                   (res_status_json 404
                      (JObject [(''error'', JString (''File not found: '' @ message error))]), s)
               | (Inr fileData, s) \<Rightarrow>
                   (case fileData of
                      Listing items \<Rightarrow>
                        (case claude_delete_each cfg octo items [] s of
                           (results, s') \<Rightarrow>
                             (res_json (JObject [(''success'', JBool True), (''results'', JArray results),
                                                 (''message'', JString (''Processed directory '' @ str_val path))]),
                              s'))
                    | Single file \<Rightarrow>
                        (case await_deleteFile octo
                                \<lparr>d_owner = REPO_OWNER cfg, d_repo = REPO_NAME cfg, d_path = str_val path,
                                 d_message = ''Delete '' @ str_val path, d_sha = entry_sha file\<rparr> s of
                           (Inr u, s') \<Rightarrow>
                             (res_json (JObject [(''success'', JBool True),
                                                 (''message'', JString (''Deleted file '' @ str_val path))]),
                              s')
                         | (Inl error, s') \<Rightarrow> (error_500 error, s')))))
         else if action = Some ''create'' then
           (if falsy path \<or> falsy_value content
            then (res_status_json 400 (JObject [(''error'', JString ''Path and content are required'')]), [], w)
            else
              (case await_getContent octo
                      \<lparr>g_owner = REPO_OWNER cfg, g_repo = REPO_NAME cfg, g_path = str_val path\<rparr> ([], w) of
                 (lookup, s) \<Rightarrow>
                   (let sha = (case lookup of Inr data \<Rightarrow> data_sha data | Inl error \<Rightarrow> None)
                    in case Buffer_from content of
                         Inl error \<Rightarrow> (error_500 error, s)
                       | Inr buffer \<Rightarrow>
                           (case await_createOrUpdateFileContents octo
                                   \<lparr>w_owner = REPO_OWNER cfg, w_repo = REPO_NAME cfg, w_path = str_val path,
                                    w_message = or_default msg (''Update '' @ str_val path),
                                    w_content = toString_base64 buffer,
                                    w_sha = sha\<rparr> s of
                              (Inr u, s') \<Rightarrow>
                                (res_json (JObject [(''success'', JBool True),
                                                    (''message'', JString (''Updated '' @ str_val path))]),
                                 s')
                            | (Inl error, s') \<Rightarrow> (error_500 error, s')))))
         else
           (res_status_json 400 (JObject [(''error'', JString invalid_action)]), [], w))"

subsection \<open>The application: body parser, routes and their middleware\<close>

datatype route = GET_api | GET_api_list | POST_api_delete | POST_api_create | POST_api_claude

text \<open>
  \<open>app.use(express.json())\<close> precedes the routes, so the parser runs first on every
  request; a route of the protected four then runs \<open>checkApiKey\<close> before its handler.
\<close>

definition app :: "config \<Rightarrow> 'w octokit \<Rightarrow> route \<Rightarrow> raw_request \<Rightarrow> 'w \<Rightarrow> response \<times> call list \<times> 'w" where
  "app cfg octo r raw w =
     (case express_json raw of
        None \<Rightarrow> (parse_failed, [], w)
      | Some req \<Rightarrow>
          (case r of
             GET_api \<Rightarrow> api_root w
           | GET_api_list \<Rightarrow> checkApiKey cfg req (api_list cfg octo req) w
           | POST_api_delete \<Rightarrow> checkApiKey cfg req (api_delete cfg octo req) w
           | POST_api_create \<Rightarrow> checkApiKey cfg req (api_create cfg octo req) w
           | POST_api_claude \<Rightarrow> checkApiKey cfg req (api_claude cfg octo req) w))"

subsection \<open>Vocabulary of the statements\<close>

text \<open>A request passes the middleware: its key is truthy and equal to the configured one.\<close>

definition authorized :: "config \<Rightarrow> request \<Rightarrow> bool" where
  "authorized cfg req = (\<not> falsy (x_api_key req) \<and> x_api_key req = API_KEY cfg)"

text \<open>The entries of a listing that the loop deletes, and the call it makes for each.\<close>

definition file_entries :: "content_entry list \<Rightarrow> content_entry list" where
  "file_entries items = filter (\<lambda>item. entry_type item = ''file'') items"

definition delete_args_of :: "config \<Rightarrow> content_entry \<Rightarrow> delete_args" where
  "delete_args_of cfg item =
     \<lparr>d_owner = REPO_OWNER cfg, d_repo = REPO_NAME cfg, d_path = entry_path item,
      d_message = ''Delete '' @ entry_path item, d_sha = entry_sha item\<rparr>"

text \<open>
  The outcomes of a sequence of deletes issued one after the other, each on the world the
  previous one left, whatever the previous outcome was.
\<close>

fun delete_outcomes :: "'w octokit \<Rightarrow> delete_args list \<Rightarrow> 'w \<Rightarrow> (js_error + unit) list \<times> 'w" where
  "delete_outcomes octo [] w = ([], w)"
| "delete_outcomes octo (a # as) w =
     (case deleteFile octo a w of
        (r, w') \<Rightarrow> (case delete_outcomes octo as w' of (rs, w'') \<Rightarrow> (r # rs, w'')))"

text \<open>The element of \<open>results\<close> for one entry, given the outcome of its delete.\<close>

definition item_result :: "content_entry \<Rightarrow> js_error + unit \<Rightarrow> json" where
  "item_result item r =
     (case r of
        Inr u \<Rightarrow> JObject [(''success'', JBool True), (''path'', JString (entry_path item))]
      | Inl error \<Rightarrow> JObject [(''error'', JString (message error)), (''path'', JString (entry_path item))])"

text \<open>The field of a JSON object, if the value is an object that has it.\<close>

definition field :: "string \<Rightarrow> json \<Rightarrow> json option" where
  "field k j = (case j of JObject fs \<Rightarrow> map_of fs k | _ \<Rightarrow> None)"

definition is_JBool :: "json option \<Rightarrow> bool" where
  "is_JBool v = (case v of Some (JBool b) \<Rightarrow> True | _ \<Rightarrow> False)"

text \<open>
  The shape \<open>{success: bool, path, message, error?}\<close> of the data model: a boolean
  \<open>success\<close>, a \<open>path\<close> and a \<open>message\<close> are present.
\<close>

definition OperationResult_shape :: "json \<Rightarrow> bool" where
  "OperationResult_shape j =
     (is_JBool (field ''success'' j) \<and> field ''path'' j \<noteq> None \<and> field ''message'' j \<noteq> None)"

text \<open>The \<open>results\<close> array of a response body.\<close>

definition results_of :: "response \<Rightarrow> json list" where
  "results_of res = (case field ''results'' (json_body res) of Some (JArray rs) \<Rightarrow> rs | _ \<Rightarrow> [])"

text \<open>The contents handed to the write calls of a log, and their decoding back to text.\<close>

definition transmitted_content :: "call list \<Rightarrow> string list" where
  "transmitted_content calls = concat (map (\<lambda>c. case c of CreateOrUpdate a \<Rightarrow> [w_content a] | _ \<Rightarrow> []) calls)"

definition decode_text :: "string \<Rightarrow> 16 word list option" where
  "decode_text s =
     (case base64_decode s of
        None \<Rightarrow> None
      | Some bytes \<Rightarrow>
          (case utf8_decode bytes of
             None \<Rightarrow> None
           | Some cps \<Rightarrow> Some (map of_nat (concat (map utf16_units cps)))))"

text \<open>The \<open>error\<close> text of a response body, and the commit messages of the write calls.\<close>

definition error_text :: "response \<Rightarrow> string" where
  "error_text res = (case field ''error'' (json_body res) of Some (JString m) \<Rightarrow> m | _ \<Rightarrow> [])"

definition commit_messages :: "call list \<Rightarrow> string list" where
  "commit_messages calls = concat (map (\<lambda>c. case c of CreateOrUpdate a \<Rightarrow> [w_message a] | _ \<Rightarrow> []) calls)"

text \<open>
  The element of \<open>results\<close> for an entry whose delete had the given outcome: the
  entry's \<open>path\<close>, no \<open>message\<close>, and \<open>success: true\<close> without \<open>error\<close> when the
  delete returned, the thrown error's message as \<open>error\<close> without \<open>success\<close> when it
  threw.
\<close>

definition outcome_shape :: "json \<Rightarrow> content_entry \<times> (js_error + unit) \<Rightarrow> bool" where
  "outcome_shape j ir =
     (field ''path'' j = Some (JString (entry_path (fst ir))) \<and> field ''message'' j = None \<and>
      (case snd ir of
         Inr u \<Rightarrow> field ''success'' j = Some (JBool True) \<and> field ''error'' j = None
       | Inl error \<Rightarrow> field ''success'' j = None \<and> field ''error'' j = Some (JString (message error))))"

subsection \<open>A sample deployment\<close>

text \<open>
  A configuration and a remote with one directory \<open>docs\<close> (two files and a
  subdirectory) and one file \<open>a.txt\<close>. Deleting \<open>docs/notes.md\<close> fails; the world
  counts the writes and deletes that reached the remote.
\<close>

definition sample_config :: config where
  "sample_config =
     \<lparr>GITHUB_TOKEN = Some ''t0ken'', REPO_OWNER = Some ''octo'', REPO_NAME = Some ''repo'',
      API_KEY = Some ''s3cret''\<rparr>"

definition sample_docs :: "content_entry list" where
  "sample_docs =
     [\<lparr>entry_path = ''docs/readme.md'', entry_type = ''file'', entry_sha = ''aa''\<rparr>,
      \<lparr>entry_path = ''docs/img'', entry_type = ''dir'', entry_sha = ''bb''\<rparr>,
      \<lparr>entry_path = ''docs/notes.md'', entry_type = ''file'', entry_sha = ''cc''\<rparr>,
      \<lparr>entry_path = ''docs/todo.md'', entry_type = ''file'', entry_sha = ''dd''\<rparr>]"

definition sample_octokit :: "nat octokit" where
  "sample_octokit =
     \<lparr>getContent = (\<lambda>a w.
        (if g_path a = ''docs'' then Inr (Listing sample_docs)
         else if g_path a = ''a.txt''
           then Inr (Single \<lparr>entry_path = ''a.txt'', entry_type = ''file'', entry_sha = ''ee''\<rparr>)
         else Inl (Error ''Not Found''), w)),
      deleteFile = (\<lambda>a w.
        (if d_path a = ''docs/notes.md'' then Inl (Error ''sha mismatch'') else Inr (), Suc w)),
      createOrUpdateFileContents = (\<lambda>a w. (Inr (), Suc w))\<rparr>"

definition sample_request :: "string option \<Rightarrow> payload \<Rightarrow> request" where
  "sample_request key b = \<lparr>x_api_key = key, query_path = body_path b, body = b\<rparr>"

definition sample_raw :: "string option \<Rightarrow> payload \<Rightarrow> raw_request" where
  "sample_raw key b = \<lparr>raw_x_api_key = key, raw_query_path = body_path b, raw_body = Json b\<rparr>"

text \<open>The content string \<open>hi\<close>, and the string that is one unpaired high surrogate.\<close>

definition content_hi :: js_value where
  "content_hi = JsString [0x68, 0x69]"

definition content_lone_surrogate :: js_value where
  "content_lone_surrogate = JsString [0xD800]"

definition sample_payload :: "string option \<Rightarrow> string option \<Rightarrow> js_value option \<Rightarrow> payload" where
  "sample_payload a p c = \<lparr>body_action = a, body_path = p, body_content = c, body_message = None\<rparr>"

section \<open>Properties\<close>

subsection \<open>Base64 round trip\<close>

lemma b64_alphabet_distinct: "distinct b64_alphabet"
  by (simp add: b64_alphabet_def)

lemma b64_alphabet_length: "length b64_alphabet = 64"
  by (simp add: b64_alphabet_def)

lemma index_of_nth:
  assumes "distinct xs" and "n < length xs"
  shows "length (takeWhile (\<lambda>x. x \<noteq> xs ! n) xs) = n"
proof -
  have "takeWhile (\<lambda>x. x \<noteq> xs ! n) xs = take n xs"
  proof (rule takeWhile_eq_take_P_nth)
    fix i assume "i < n" "i < length xs"
    with assms show "xs ! i \<noteq> xs ! n"
      by (simp add: nth_eq_iff_index_eq)
  next
    show "\<not> xs ! n \<noteq> xs ! n" by simp
  qed
  with assms show ?thesis by simp
qed

lemma b64_index_char: "n < 64 \<Longrightarrow> b64_index (b64_char n) = n"
  unfolding b64_index_def b64_char_def
  by (rule index_of_nth) (simp_all add: b64_alphabet_distinct b64_alphabet_length)

lemma b64_char_not_pad: "n < 64 \<Longrightarrow> b64_char n \<noteq> CHR ''=''"
proof -
  assume "n < 64"
  then have "b64_alphabet ! n \<in> set b64_alphabet"
    by (simp add: b64_alphabet_length)
  moreover have "CHR ''='' \<notin> set b64_alphabet"
    by (simp add: b64_alphabet_def)
  ultimately show ?thesis
    unfolding b64_char_def by metis
qed

lemma sextet_bounds:
  fixes a b c :: nat
  assumes "a < 256" "b < 256" "c < 256"
  shows "a div 4 < 64" "(a mod 4) * 16 < 64" "(a mod 4) * 16 + b div 16 < 64"
    "(b mod 16) * 4 < 64" "(b mod 16) * 4 + c div 64 < 64" "c mod 64 < 64"
  using assms by simp_all

lemma octet_rebuild:
  fixes a b c :: nat
  assumes "a < 256" "b < 256" "c < 256"
  shows "a div 4 * 4 + ((a mod 4) * 16) div 16 = a"
    "a div 4 * 4 + ((a mod 4) * 16 + b div 16) div 16 = a"
    "(((a mod 4) * 16 + b div 16) mod 16) * 16 + ((b mod 16) * 4) div 4 = b"
    "(((a mod 4) * 16 + b div 16) mod 16) * 16 + ((b mod 16) * 4 + c div 64) div 4 = b"
    "(((b mod 16) * 4 + c div 64) mod 4) * 64 + c mod 64 = c"
  using assms by simp_all

lemma base64_roundtrip:
  "\<forall>a \<in> set bs. a < 256 \<Longrightarrow> base64_decode (toString_base64 bs) = Some bs"
proof (induction bs rule: toString_base64.induct)
  case 1
  show ?case by simp
next
  case (2 a)
  then have a: "a < 256" by simp
  show ?case
    using sextet_bounds(1,2)[OF a a a] octet_rebuild(1)[OF a a a]
    by (simp add: b64_index_char)
next
  case (3 a b)
  then have a: "a < 256" and b: "b < 256" by simp_all
  show ?case
    using sextet_bounds(1,3,4)[OF a b b] octet_rebuild(2,3)[OF a b b]
    by (simp add: b64_index_char b64_char_not_pad)
next
  case (4 a b c rest)
  then have a: "a < 256" and b: "b < 256" and c: "c < 256"
    and rest: "base64_decode (toString_base64 rest) = Some rest" by simp_all
  show ?case
    using sextet_bounds(1,3,5,6)[OF a b c] octet_rebuild(2,4,5)[OF a b c] rest
    by (simp add: b64_index_char b64_char_not_pad)
qed

subsection \<open>UTF-8 round trip\<close>

lemma shift6: "q div 64 * 4096 + q mod 64 * 64 = (q::nat) * 64"
proof -
  have distrib: "\<And>a b::nat. (a * 64 + b) * 64 = a * 4096 + b * 64" by simp
  have "(q div 64 * 64 + q mod 64) * 64 = q * 64" by (simp only: div_mult_mod_eq)
  then show ?thesis by (simp only: distrib)
qed

lemma recompose3: "(cp div 4096) * 4096 + ((cp div 64) mod 64) * 64 + cp mod 64 = (cp::nat)"
proof -
  have "cp div 4096 = (cp div 64) div 64" by (simp add: div_mult2_eq)
  then have "(cp div 4096) * 4096 + ((cp div 64) mod 64) * 64 = (cp div 64) * 64"
    by (simp only: shift6)
  then show ?thesis by (simp only: div_mult_mod_eq)
qed

lemma shift12: "q div 64 * 262144 + q mod 64 * 4096 = (q::nat) * 4096"
proof -
  have distrib: "\<And>a b::nat. (a * 64 + b) * 4096 = a * 262144 + b * 4096" by simp
  have "(q div 64 * 64 + q mod 64) * 4096 = q * 4096" by (simp only: div_mult_mod_eq)
  then show ?thesis by (simp only: distrib)
qed

lemma recompose4:
  "(cp div 262144) * 262144 + ((cp div 4096) mod 64) * 4096 + ((cp div 64) mod 64) * 64 + cp mod 64 = (cp::nat)"
proof -
  have d: "cp div 262144 = (cp div 4096) div 64" by (simp add: div_mult2_eq)
  have e: "(cp div 4096) * 4096 + ((cp div 64) mod 64) * 64 + cp mod 64 = cp" by (rule recompose3)
  have "(cp div 262144) * 262144 + ((cp div 4096) mod 64) * 4096 = (cp div 4096) * 4096"
    by (simp only: d shift12)
  then show ?thesis by (simp only: e)
qed

lemma utf8_decode_2:
  assumes "0x80 \<le> cp" "cp < 0x800"
  shows "utf8_decode ([0xC0 + cp div 64, 0x80 + cp mod 64] @ bs) =
           map_option (\<lambda>cps. cp # cps) (utf8_decode bs)"
proof -
  have lead: "cp div 64 < 32"
    using assms(2) by (intro less_mult_imp_div_less) simp
  have val: "(cp div 64) * 64 + cp mod 64 = cp" by (simp only: div_mult_mod_eq)
  show ?thesis
    using lead val by simp
qed

lemma utf8_decode_3:
  assumes "0x800 \<le> cp" "cp < 0x10000"
  shows "utf8_decode ([0xE0 + cp div 4096, 0x80 + (cp div 64) mod 64, 0x80 + cp mod 64] @ bs) =
           map_option (\<lambda>cps. cp # cps) (utf8_decode bs)"
proof -
  have lead: "cp div 4096 < 16"
    using assms(2) by (intro less_mult_imp_div_less) simp
  show ?thesis
    using lead recompose3[of cp] by simp
qed

lemma utf8_decode_4:
  assumes "0x10000 \<le> cp" "cp < 0x110000"
  shows "utf8_decode ([0xF0 + cp div 262144, 0x80 + (cp div 4096) mod 64, 0x80 + (cp div 64) mod 64,
                       0x80 + cp mod 64] @ bs) =
           map_option (\<lambda>cps. cp # cps) (utf8_decode bs)"
proof -
  have lead: "cp div 262144 < 8"
    using assms(2) by (intro less_mult_imp_div_less) simp
  show ?thesis
    using lead recompose4[of cp] by simp
qed

lemma utf8_bytes_cases:
  assumes "cp < 0x110000"
  obtains "cp < 0x80" "utf8_bytes cp = [cp]"
  | "0x80 \<le> cp" "cp < 0x800" "utf8_bytes cp = [0xC0 + cp div 64, 0x80 + cp mod 64]"
  | "0x800 \<le> cp" "cp < 0x10000"
      "utf8_bytes cp = [0xE0 + cp div 4096, 0x80 + (cp div 64) mod 64, 0x80 + cp mod 64]"
  | "0x10000 \<le> cp" "cp < 0x110000"
      "utf8_bytes cp = [0xF0 + cp div 262144, 0x80 + (cp div 4096) mod 64, 0x80 + (cp div 64) mod 64,
                        0x80 + cp mod 64]"
proof -
  consider "cp < 0x80" | "0x80 \<le> cp" "cp < 0x800" | "0x800 \<le> cp" "cp < 0x10000"
    | "0x10000 \<le> cp" "cp < 0x110000"
    using assms by linarith
  then show ?thesis
    using that by cases (simp_all add: utf8_bytes_def)
qed

lemma utf8_decode_bytes:
  assumes "cp < 0x110000"
  shows "utf8_decode (utf8_bytes cp @ bs) = map_option (\<lambda>cps. cp # cps) (utf8_decode bs)"
  using assms
proof (cases rule: utf8_bytes_cases)
  case 1
  then show ?thesis by simp
next
  case 2
  then show ?thesis by (simp only: utf8_decode_2)
next
  case 3
  then show ?thesis by (simp only: utf8_decode_3)
next
  case 4
  then show ?thesis by (simp only: utf8_decode_4)
qed

lemma continuation_small: "(x::nat) mod 64 < 128"
proof -
  have "x mod 64 < 64" by simp
  then show ?thesis by linarith
qed

lemma utf8_bytes_bound:
  assumes "cp < 0x110000"
  shows "\<forall>b \<in> set (utf8_bytes cp). b < 256"
  using assms
proof (cases rule: utf8_bytes_cases)
  case 1
  then show ?thesis by simp
next
  case 2
  have "cp div 64 < 32"
    using 2(2) by (intro less_mult_imp_div_less) simp
  then show ?thesis using 2(3) by (simp add: continuation_small)
next
  case 3
  have "cp div 4096 < 16"
    using 3(2) by (intro less_mult_imp_div_less) simp
  then show ?thesis using 3(3) by (simp add: continuation_small)
next
  case 4
  have "cp div 262144 < 8"
    using 4(2) by (intro less_mult_imp_div_less) simp
  then show ?thesis using 4(3) by (simp add: continuation_small)
qed

lemma utf8_decode_concat:
  "\<forall>cp \<in> set cps. cp < 0x110000 \<Longrightarrow> utf8_decode (concat (map utf8_bytes cps)) = Some cps"
proof (induction cps)
  case Nil
  show ?case by simp
next
  case (Cons cp cps)
  then have "cp < 0x110000" and "utf8_decode (concat (map utf8_bytes cps)) = Some cps"
    by simp_all
  then show ?case
    by (simp add: utf8_decode_bytes del: utf8_decode.simps)
qed

lemma surrogate_pair_bound:
  assumes "is_high_surrogate u" "is_low_surrogate v"
  shows "0x10000 + (u - 0xD800) * 0x400 + (v - 0xDC00) < 0x110000"
proof -
  from assms have "u - 0xD800 \<le> 0x3FF" and "v - 0xDC00 \<le> 0x3FF"
    by (auto simp add: is_high_surrogate_def is_low_surrogate_def)
  then have "(u - 0xD800) * 0x400 \<le> 0x3FF * 0x400" and "v - 0xDC00 \<le> 0x3FF"
    by simp_all
  then show ?thesis by linarith
qed

lemma scalar_or_replacement_bound: "u < 0x10000 \<Longrightarrow> scalar_or_replacement u < 0x110000"
  by (simp add: scalar_or_replacement_def)

lemma code_points_bound:
  "\<forall>u \<in> set us. u < 0x10000 \<Longrightarrow> \<forall>cp \<in> set (code_points us). cp < 0x110000"
proof (induction us rule: code_points.induct)
  case 1
  show ?case by simp
next
  case (2 u)
  then show ?case by (simp add: scalar_or_replacement_bound)
next
  case (3 u v rest)
  show ?case
  proof (cases "is_high_surrogate u \<and> is_low_surrogate v")
    case True
    then have eq: "code_points (u # v # rest) =
        (0x10000 + (u - 0xD800) * 0x400 + (v - 0xDC00)) # code_points rest"
      by simp
    have "\<forall>cp \<in> set (code_points rest). cp < 0x110000"
      using 3 True by simp
    then show ?thesis
      unfolding eq using surrogate_pair_bound[of u v] True by simp
  next
    case False
    then have eq: "code_points (u # v # rest) = scalar_or_replacement u # code_points (v # rest)"
      by (simp only: code_points.simps if_False)
    have "\<forall>cp \<in> set (code_points (v # rest)). cp < 0x110000"
      using 3 False by simp
    moreover have "scalar_or_replacement u < 0x110000"
      using 3(3) by (simp add: scalar_or_replacement_bound)
    ultimately show ?thesis
      unfolding eq by simp
  qed
qed

lemma utf16_units_pair:
  assumes "is_high_surrogate u" "is_low_surrogate v"
  shows "utf16_units (0x10000 + (u - 0xD800) * 0x400 + (v - 0xDC00)) = [u, v]"
proof -
  from assms have u: "0xD800 \<le> u" and v: "0xDC00 \<le> v" and small: "v - 0xDC00 < 0x400"
    by (auto simp add: is_high_surrogate_def is_low_surrogate_def)
  have d: "((u - 0xD800) * 0x400 + (v - 0xDC00)) div 0x400 = u - 0xD800"
    using small by simp
  have m: "((u - 0xD800) * 0x400 + (v - 0xDC00)) mod 0x400 = v - 0xDC00"
    using small by simp
  have "utf16_units (0x10000 + ((u - 0xD800) * 0x400 + (v - 0xDC00))) =
          [0xD800 + (u - 0xD800), 0xDC00 + (v - 0xDC00)]"
    unfolding utf16_units_def using d m by simp
  then show ?thesis
    using u v by (simp add: add.assoc)
qed

lemma utf16_units_scalar: "u < 0x10000 \<Longrightarrow> utf16_units u = [u]"
  by (simp add: utf16_units_def)

lemma utf16_units_code_points:
  "\<forall>u \<in> set us. u < 0x10000 \<Longrightarrow> well_formed us \<Longrightarrow>
     concat (map utf16_units (code_points us)) = us"
proof (induction us rule: code_points.induct)
  case 1
  show ?case by simp
next
  case (2 u)
  then show ?case by (simp add: scalar_or_replacement_def utf16_units_scalar)
next
  case (3 u v rest)
  show ?case
  proof (cases "is_high_surrogate u \<and> is_low_surrogate v")
    case True
    then have eq: "code_points (u # v # rest) =
        (0x10000 + (u - 0xD800) * 0x400 + (v - 0xDC00)) # code_points rest"
      and wf: "well_formed rest"
      using 3(4) by simp_all
    have "concat (map utf16_units (code_points rest)) = rest"
      using 3(1)[OF True] 3(3) wf by simp
    then show ?thesis
      unfolding eq using utf16_units_pair[of u v] True by simp
  next
    case False
    then have eq: "code_points (u # v # rest) = scalar_or_replacement u # code_points (v # rest)"
      by (simp only: code_points.simps if_False)
    have "well_formed (u # v # rest) =
            (\<not> is_high_surrogate u \<and> \<not> is_low_surrogate u \<and> well_formed (v # rest))"
      using False by (simp only: well_formed.simps if_False)
    with 3(4) have u: "\<not> is_high_surrogate u" "\<not> is_low_surrogate u" and wf: "well_formed (v # rest)"
      by blast+
    have "concat (map utf16_units (code_points (v # rest))) = v # rest"
      using 3(2)[OF False] 3(3) wf by simp
    moreover have "utf16_units (scalar_or_replacement u) = [u]"
      using u 3(3) by (simp add: scalar_or_replacement_def utf16_units_scalar)
    ultimately show ?thesis
      unfolding eq by simp
  qed
qed

lemma code_units_bound: "\<forall>u \<in> set (map unat (s :: 16 word list)). u < 0x10000"
proof -
  have "unat (x :: 16 word) < 0x10000" for x
    using unsigned_less[of x, where ?'a = nat] by simp
  then show ?thesis by simp
qed

lemma utf8_encode_bytes: "\<forall>a \<in> set (utf8_encode s). a < 256"
  using code_points_bound[OF code_units_bound[of s]] utf8_bytes_bound
  by (auto simp add: utf8_encode_def)

lemma utf8_decode_encode: "utf8_decode (utf8_encode s) = Some (code_points (map unat s))"
  unfolding utf8_encode_def
  by (rule utf8_decode_concat[OF code_points_bound[OF code_units_bound]])

lemma base64_utf8_roundtrip: "base64_decode (toString_base64 (utf8_encode s)) = Some (utf8_encode s)"
  by (rule base64_roundtrip[OF utf8_encode_bytes])

lemma decode_text_encode:
  assumes "well_formed (map unat s)"
  shows "decode_text (toString_base64 (utf8_encode s)) = Some s"
proof -
  have "concat (map utf16_units (code_points (map unat s))) = map unat s"
    using code_units_bound[of s] assms by (rule utf16_units_code_points)
  then show ?thesis
    by (simp add: decode_text_def base64_utf8_roundtrip utf8_decode_encode comp_def)
qed

lemma Buffer_from_string: "Buffer_from (Some (JsString s)) = Inr (utf8_encode s)"
  by (simp add: Buffer_from_def)

subsection \<open>The middleware\<close>


lemma checkApiKey_pass: "authorized cfg req \<Longrightarrow> checkApiKey cfg req next w = next w"
  by (auto simp add: checkApiKey_def authorized_def)

lemma checkApiKey_cong:
  "x_api_key req' = x_api_key req \<Longrightarrow> next w = next' w \<Longrightarrow>
     checkApiKey cfg req next w = checkApiKey cfg req' next' w"
  by (auto simp add: checkApiKey_def Let_def)




lemma app_parsed:
  assumes "express_json raw = Some req"
  shows "app cfg octo GET_api_list raw w = checkApiKey cfg req (api_list cfg octo req) w"
    and "app cfg octo POST_api_delete raw w = checkApiKey cfg req (api_delete cfg octo req) w"
    and "app cfg octo POST_api_create raw w = checkApiKey cfg req (api_create cfg octo req) w"
    and "app cfg octo POST_api_claude raw w = checkApiKey cfg req (api_claude cfg octo req) w"
  using assms by (simp_all add: app_def)

lemma app_authorized:
  assumes "express_json raw = Some req" and "authorized cfg req"
  shows "app cfg octo GET_api_list raw w = api_list cfg octo req w"
    and "app cfg octo POST_api_delete raw w = api_delete cfg octo req w"
    and "app cfg octo POST_api_create raw w = api_create cfg octo req w"
    and "app cfg octo POST_api_claude raw w = api_claude cfg octo req w"
  using assms by (simp_all add: app_def checkApiKey_pass)

subsection \<open>Awaited calls and the delete loop\<close>

lemma await_getContent_run:
  "getContent octo a w = (r, w') \<Longrightarrow> await_getContent octo a (log, w) = (r, log @ [GetContent a], w')"
  by (simp add: await_getContent_def)

lemma await_deleteFile_run:
  "deleteFile octo a w = (r, w') \<Longrightarrow> await_deleteFile octo a (log, w) = (r, log @ [DeleteFile a], w')"
  by (simp add: await_deleteFile_def)

lemma await_createOrUpdateFileContents_run:
  "createOrUpdateFileContents octo a w = (r, w') \<Longrightarrow>
     await_createOrUpdateFileContents octo a (log, w) = (r, log @ [CreateOrUpdate a], w')"
  by (simp add: await_createOrUpdateFileContents_def)

lemma delete_outcomes_length: "length (fst (delete_outcomes octo as w)) = length as"
proof (induction as arbitrary: w)
  case Nil
  show ?case by simp
next
  case (Cons a as)
  obtain r w' where d: "deleteFile octo a w = (r, w')"
    by (cases "deleteFile octo a w")
  obtain rs w'' where o: "delete_outcomes octo as w' = (rs, w'')"
    by (cases "delete_outcomes octo as w'")
  show ?case
    using Cons.IH[of w'] d o by simp
qed

lemma delete_each_file:
  assumes "entry_type item = ''file''"
    and "deleteFile octo (delete_args_of cfg item) w = (r, w')"
  shows "delete_each cfg octo (item # rest) results (log, w) =
           delete_each cfg octo rest (results @ [item_result item r])
             (log @ [DeleteFile (delete_args_of cfg item)], w')"
  using assms by (cases r) (simp_all add: await_deleteFile_def delete_args_of_def item_result_def)

lemma delete_each_run:
  "delete_each cfg octo items results (log, w) =
     (results @ map2 item_result (file_entries items)
                  (fst (delete_outcomes octo (map (delete_args_of cfg) (file_entries items)) w)),
      log @ map (\<lambda>item. DeleteFile (delete_args_of cfg item)) (file_entries items),
      snd (delete_outcomes octo (map (delete_args_of cfg) (file_entries items)) w))"
proof (induction items arbitrary: results log w)
  case Nil
  show ?case by (simp add: file_entries_def)
next
  case (Cons item rest)
  show ?case
  proof (cases "entry_type item = ''file''")
    case False
    then have "file_entries (item # rest) = file_entries rest"
      by (simp add: file_entries_def)
    then show ?thesis
      using False Cons.IH by simp
  next
    case True
    obtain r w' where d: "deleteFile octo (delete_args_of cfg item) w = (r, w')"
      by (cases "deleteFile octo (delete_args_of cfg item) w")
    obtain rs w'' where o: "delete_outcomes octo (map (delete_args_of cfg) (file_entries rest)) w' = (rs, w'')"
      by (cases "delete_outcomes octo (map (delete_args_of cfg) (file_entries rest)) w'")
    have fe: "file_entries (item # rest) = item # file_entries rest"
      using True by (simp add: file_entries_def)
    have "delete_each cfg octo (item # rest) results (log, w) =
            delete_each cfg octo rest (results @ [item_result item r])
              (log @ [DeleteFile (delete_args_of cfg item)], w')"
      using True d by (rule delete_each_file)
    also have "\<dots> = ((results @ [item_result item r]) @ map2 item_result (file_entries rest) rs,
                     (log @ [DeleteFile (delete_args_of cfg item)]) @
                       map (\<lambda>item. DeleteFile (delete_args_of cfg item)) (file_entries rest),
                     w'')"
      using Cons.IH[of "results @ [item_result item r]" "log @ [DeleteFile (delete_args_of cfg item)]" w'] o
      by simp
    finally show ?thesis
      using d o fe by simp
  qed
qed

lemma claude_delete_each_eq: "claude_delete_each cfg octo items results s = delete_each cfg octo items results s"
  by (induction items arbitrary: results s) (simp_all split: prod.splits sum.splits)

subsection \<open>The handlers, branch by branch\<close>

lemma api_delete_missing_path:
  "falsy (body_path (body req)) \<Longrightarrow>
     api_delete cfg octo req w =
       (\<lparr>status = 400, json_body = JObject [(''error'', JString ''Path is required'')]\<rparr>, [], w)"
  by (simp add: api_delete_def res_status_json_def)

lemma api_create_missing:
  "falsy (body_path (body req)) \<or> falsy_value (body_content (body req)) \<Longrightarrow>
     api_create cfg octo req w =
       (\<lparr>status = 400, json_body = JObject [(''error'', JString ''Path and content are required'')]\<rparr>, [], w)"
  by (auto simp add: api_create_def res_status_json_def)

lemma api_delete_400_no_call:
  "status (fst (api_delete cfg octo req w)) = 400 \<Longrightarrow> snd (api_delete cfg octo req w) = ([], w)"
  by (auto simp add: api_delete_def Let_def res_json_def res_status_json_def error_500_def
           split: prod.splits sum.splits content_data.splits if_splits)

lemma api_create_400_no_call:
  "status (fst (api_create cfg octo req w)) = 400 \<Longrightarrow> snd (api_create cfg octo req w) = ([], w)"
  by (auto simp add: api_create_def Let_def res_json_def res_status_json_def error_500_def
           split: prod.splits sum.splits if_splits)

lemma api_delete_not_found:
  assumes "body_path (body req) = Some p" and "p \<noteq> []"
    and "getContent octo \<lparr>g_owner = REPO_OWNER cfg, g_repo = REPO_NAME cfg, g_path = p\<rparr> w = (Inl e, w1)"
  shows "api_delete cfg octo req w =
           (\<lparr>status = 404, json_body = JObject [(''error'', JString (''File not found: '' @ message e))]\<rparr>,
            [GetContent \<lparr>g_owner = REPO_OWNER cfg, g_repo = REPO_NAME cfg, g_path = p\<rparr>], w1)"
  using assms
  by (simp add: api_delete_def falsy_def str_val_def await_getContent_run res_status_json_def)

lemma api_delete_directory:
  assumes "body_path (body req) = Some p" and "p \<noteq> []"
    and "getContent octo \<lparr>g_owner = REPO_OWNER cfg, g_repo = REPO_NAME cfg, g_path = p\<rparr> w = (Inr (Listing items), w1)"
  shows "api_delete cfg octo req w =
           (\<lparr>status = 200,
             json_body = JObject
               [(''success'', JBool True),
                (''results'', JArray (map2 item_result (file_entries items)
                   (fst (delete_outcomes octo (map (delete_args_of cfg) (file_entries items)) w1)))),
                (''message'', JString (''Processed directory '' @ p))]\<rparr>,
            GetContent \<lparr>g_owner = REPO_OWNER cfg, g_repo = REPO_NAME cfg, g_path = p\<rparr> #
              map (\<lambda>item. DeleteFile (delete_args_of cfg item)) (file_entries items),
            snd (delete_outcomes octo (map (delete_args_of cfg) (file_entries items)) w1))"
  using assms
  by (simp add: api_delete_def falsy_def str_val_def await_getContent_run delete_each_run res_json_def)

lemma api_create_run:
  assumes "body_path (body req) = Some p" and "p \<noteq> []"
    and "body_content (body req) = Some (JsString c)" and "c \<noteq> []"
    and "getContent octo \<lparr>g_owner = REPO_OWNER cfg, g_repo = REPO_NAME cfg, g_path = p\<rparr> w = (lookup, w1)"
    and "createOrUpdateFileContents octo
           \<lparr>w_owner = REPO_OWNER cfg, w_repo = REPO_NAME cfg, w_path = p,
            w_message = or_default (body_message (body req)) (''Update '' @ p),
            w_content = toString_base64 (utf8_encode c),
            w_sha = (case lookup of Inl error \<Rightarrow> None | Inr (Single e) \<Rightarrow> Some (entry_sha e)
                     | Inr (Listing items) \<Rightarrow> None)\<rparr> w1 = (written, w2)"
  shows "api_create cfg octo req w =
           ((case written of
               Inr u \<Rightarrow> \<lparr>status = 200, json_body = JObject [(''success'', JBool True),
                                                           (''message'', JString (''Updated '' @ p))]\<rparr>
             | Inl error \<Rightarrow> \<lparr>status = 500, json_body = JObject [(''error'', JString (message error))]\<rparr>),
            [GetContent \<lparr>g_owner = REPO_OWNER cfg, g_repo = REPO_NAME cfg, g_path = p\<rparr>,
             CreateOrUpdate
               \<lparr>w_owner = REPO_OWNER cfg, w_repo = REPO_NAME cfg, w_path = p,
                w_message = or_default (body_message (body req)) (''Update '' @ p),
                w_content = toString_base64 (utf8_encode c),
                w_sha = (case lookup of Inl error \<Rightarrow> None | Inr (Single e) \<Rightarrow> Some (entry_sha e)
                         | Inr (Listing items) \<Rightarrow> None)\<rparr>],
            w2)"
proof -
  have sha: "(case lookup of Inr data \<Rightarrow> data_sha data | Inl error \<Rightarrow> None) =
             (case lookup of Inl error \<Rightarrow> None | Inr (Single e) \<Rightarrow> Some (entry_sha e)
                     | Inr (Listing items) \<Rightarrow> None)"
    by (simp add: data_sha_def split: sum.splits content_data.splits)
  show ?thesis
    using assms(1-5) assms(6)[folded sha]
    by (cases written)
       (simp_all add: api_create_def falsy_def falsy_value_def str_val_def await_getContent_run
          Buffer_from_string await_createOrUpdateFileContents_run res_json_def error_500_def
          res_status_json_def sha)
qed

lemma api_create_type_error:
  assumes "body_path (body req) = Some p" and "p \<noteq> []"
    and "\<not> falsy_value (body_content (body req))"
    and "Buffer_from (body_content (body req)) = Inl e"
    and "getContent octo \<lparr>g_owner = REPO_OWNER cfg, g_repo = REPO_NAME cfg, g_path = p\<rparr> w = (lookup, w1)"
  shows "api_create cfg octo req w =
           (\<lparr>status = 500, json_body = JObject [(''error'', JString (message e))]\<rparr>,
            [GetContent \<lparr>g_owner = REPO_OWNER cfg, g_repo = REPO_NAME cfg, g_path = p\<rparr>], w1)"
  using assms
  by (simp add: api_create_def falsy_def str_val_def await_getContent_run error_500_def
        res_status_json_def)

lemma claude_delete_each_fun: "claude_delete_each = delete_each"
  by (intro ext) (rule claude_delete_each_eq)

lemma api_claude_list:
  "body_action (body req) = Some ''list'' \<Longrightarrow> query_path req' = body_path (body req) \<Longrightarrow>
     api_claude cfg octo req w = api_list cfg octo req' w"
  by (simp add: api_claude_def api_list_def)

lemma api_claude_delete:
  "body_action (body req) = Some ''delete'' \<Longrightarrow> api_claude cfg octo req w = api_delete cfg octo req w"
  unfolding api_claude_def api_delete_def claude_delete_each_fun by simp

lemma api_claude_create:
  "body_action (body req) = Some ''create'' \<Longrightarrow> api_claude cfg octo req w = api_create cfg octo req w"
  unfolding api_claude_def api_create_def by simp

lemma api_claude_other:
  "body_action (body req) \<notin> {Some ''list'', Some ''delete'', Some ''create''} \<Longrightarrow>
     api_claude cfg octo req w =
       (\<lparr>status = 400, json_body = JObject [(''error'', JString invalid_action)]\<rparr>, [], w)"
  by (simp add: api_claude_def res_status_json_def)

lemma transmitted_content_create:
  "transmitted_content [GetContent g, CreateOrUpdate a] = [w_content a]"
  by (simp add: transmitted_content_def)

lemma commit_messages_create:
  "commit_messages [GetContent g, CreateOrUpdate a] = [w_message a]"
  by (simp add: commit_messages_def)

lemma item_result_outcome_shape: "outcome_shape (item_result item r) (item, r)"
  by (cases r) (simp_all add: outcome_shape_def item_result_def field_def)

lemma map2_item_result_outcome_shape:
  "length xs = length ys \<Longrightarrow> list_all2 outcome_shape (map2 item_result xs ys) (zip xs ys)"
  by (induction xs ys rule: list_induct2) (simp_all add: item_result_outcome_shape)

subsection \<open>The sample deployment, evaluated\<close>

lemma authorized_sample:
  "authorized sample_config (sample_request (Some ''s3cret'') b)"
  by (simp add: authorized_def sample_config_def sample_request_def falsy_def)

lemma sample_parsed: "express_json (sample_raw key b) = Some (sample_request key b)"
  by (simp add: express_json_def sample_raw_def sample_request_def)

lemma sample_hi_utf8: "utf8_encode [0x68, 0x69] = [0x68, 0x69]"
  by (simp add: utf8_encode_def utf8_bytes_def scalar_or_replacement_def is_high_surrogate_def
        is_low_surrogate_def)

lemma sample_hi_base64: "toString_base64 (utf8_encode [0x68, 0x69]) = ''aGk=''"
  unfolding sample_hi_utf8 by code_simp

lemma sample_lone_surrogate_utf8: "utf8_encode [0xD800] = [0xEF, 0xBF, 0xBD]"
  by (simp add: utf8_encode_def utf8_bytes_def scalar_or_replacement_def is_high_surrogate_def)

lemma sample_lone_surrogate_base64: "toString_base64 (utf8_encode [0xD800]) = ''77+9''"
  unfolding sample_lone_surrogate_utf8 by code_simp

lemma sample_lone_surrogate_decoded: "decode_text ''77+9'' = Some [0xFFFD]"
proof -
  have "base64_decode ''77+9'' = Some [0xEF, 0xBF, 0xBD]"
    by code_simp
  moreover have "utf8_decode [0xEF, 0xBF, 0xBD] = Some [0xFFFD]"
    by simp
  ultimately show ?thesis
    by (simp add: decode_text_def utf16_units_def)
qed

lemma sample_docs_files:
  "file_entries sample_docs =
      [\<lparr>entry_path = ''docs/readme.md'', entry_type = ''file'', entry_sha = ''aa''\<rparr>,
       \<lparr>entry_path = ''docs/notes.md'', entry_type = ''file'', entry_sha = ''cc''\<rparr>,
       \<lparr>entry_path = ''docs/todo.md'', entry_type = ''file'', entry_sha = ''dd''\<rparr>]"
  by (simp add: file_entries_def sample_docs_def)

lemma sample_docs_lookup:
  "getContent sample_octokit
      \<lparr>g_owner = REPO_OWNER sample_config, g_repo = REPO_NAME sample_config, g_path = ''docs''\<rparr> 0 =
      (Inr (Listing sample_docs), 0)"
  by (simp add: sample_octokit_def)

lemma sample_docs_outcomes:
  "delete_outcomes sample_octokit (map (delete_args_of sample_config) (file_entries sample_docs)) 0 =
      ([Inr (), Inl (Error ''sha mismatch''), Inr ()], 3)"
  by (simp add: sample_docs_files delete_args_of_def sample_octokit_def numeral_3_eq_3)

lemma sample_docs_path:
  "body_path (body (sample_request k (sample_payload a (Some ''docs'') c))) = Some ''docs''"
  by (simp add: sample_request_def sample_payload_def)

lemma sample_docs_results:
  "results_of (fst (api_delete sample_config sample_octokit
          (sample_request (Some ''s3cret'') (sample_payload None (Some ''docs'') None)) 0)) =
     [JObject [(''success'', JBool True), (''path'', JString ''docs/readme.md'')],
      JObject [(''error'', JString ''sha mismatch''), (''path'', JString ''docs/notes.md'')],
      JObject [(''success'', JBool True), (''path'', JString ''docs/todo.md'')]]"
proof -
  have nonempty: "''docs'' \<noteq> []" by simp
  note run = api_delete_directory
      [OF sample_docs_path [where a = None and c = None and k = "Some ''s3cret''"] nonempty sample_docs_lookup,
       unfolded sample_docs_outcomes fst_conv]
  show ?thesis
    unfolding run by (simp add: sample_docs_files results_of_def field_def item_result_def)
qed

subsection \<open>The claims\<close>




text \<open>
  C2. An authorized delete whose path resolves to a directory listing issues, after the
  lookup, one \<open>deleteFile\<close> call for each entry of type \<open>file\<close>, in listing order and
  each on the world the previous one left, whether or not earlier deletes failed. The
  answer is 200 with \<open>success: true\<close>; \<open>results\<close> has one element per such entry,
  built from the outcome of that entry's own delete.
\<close>

theorem directory_delete_each_file:
  assumes "express_json raw = Some req" and "authorized cfg req"
    and "body_path (body req) = Some p" and "p \<noteq> []"
    and "getContent octo \<lparr>g_owner = REPO_OWNER cfg, g_repo = REPO_NAME cfg, g_path = p\<rparr> w =
           (Inr (Listing items), w')"
    and "delete_outcomes octo (map (delete_args_of cfg) (file_entries items)) w' = (outcomes, w'')"
  shows "app cfg octo POST_api_delete raw w =
           (\<lparr>status = 200,
             json_body = JObject
               [(''success'', JBool True),
                (''results'', JArray (map2 item_result (file_entries items) outcomes)),
                (''message'', JString (''Processed directory '' @ p))]\<rparr>,
            GetContent \<lparr>g_owner = REPO_OWNER cfg, g_repo = REPO_NAME cfg, g_path = p\<rparr> #
              map (\<lambda>item. DeleteFile (delete_args_of cfg item)) (file_entries items),
            w'')
         \<and> length outcomes = length (file_entries items)
         \<and> length (results_of (fst (app cfg octo POST_api_delete raw w))) = length (file_entries items)"
proof -
  have run: "app cfg octo POST_api_delete raw w =
           (\<lparr>status = 200,
             json_body = JObject
               [(''success'', JBool True),
                (''results'', JArray (map2 item_result (file_entries items) outcomes)),
                (''message'', JString (''Processed directory '' @ p))]\<rparr>,
            GetContent \<lparr>g_owner = REPO_OWNER cfg, g_repo = REPO_NAME cfg, g_path = p\<rparr> #
              map (\<lambda>item. DeleteFile (delete_args_of cfg item)) (file_entries items),
            w'')"
    using assms by (simp add: app_authorized api_delete_directory)
  have len: "length outcomes = length (file_entries items)"
    using delete_outcomes_length[of octo "map (delete_args_of cfg) (file_entries items)" w'] assms(6)
    by simp
  show ?thesis
    using run len by (simp add: results_of_def field_def)
qed

theorem directory_delete_each_file_witness:
  "app sample_config sample_octokit POST_api_delete
       (sample_raw (Some ''s3cret'') (sample_payload None (Some ''docs'') None)) 0 =
     (\<lparr>status = 200,
       json_body = JObject
         [(''success'', JBool True),
          (''results'', JArray
             [JObject [(''success'', JBool True), (''path'', JString ''docs/readme.md'')],
              JObject [(''error'', JString ''sha mismatch''), (''path'', JString ''docs/notes.md'')],
              JObject [(''success'', JBool True), (''path'', JString ''docs/todo.md'')]]),
          (''message'', JString ''Processed directory docs'')]\<rparr>,
      [GetContent \<lparr>g_owner = Some ''octo'', g_repo = Some ''repo'', g_path = ''docs''\<rparr>,
       DeleteFile \<lparr>d_owner = Some ''octo'', d_repo = Some ''repo'', d_path = ''docs/readme.md'',
                   d_message = ''Delete docs/readme.md'', d_sha = ''aa''\<rparr>,
       DeleteFile \<lparr>d_owner = Some ''octo'', d_repo = Some ''repo'', d_path = ''docs/notes.md'',
                   d_message = ''Delete docs/notes.md'', d_sha = ''cc''\<rparr>,
       DeleteFile \<lparr>d_owner = Some ''octo'', d_repo = Some ''repo'', d_path = ''docs/todo.md'',
                   d_message = ''Delete docs/todo.md'', d_sha = ''dd''\<rparr>],
      3)"
proof -
  have nonempty: "''docs'' \<noteq> []" by simp
  show ?thesis
    using directory_delete_each_file
            [OF sample_parsed authorized_sample sample_docs_path nonempty sample_docs_lookup
                sample_docs_outcomes]
    by (simp add: sample_docs_files item_result_def delete_args_of_def sample_config_def)
qed

text \<open>
  C3. The combined route with action \<open>list\<close>, \<open>delete\<close> or \<open>create\<close> gives the same
  response, the same remote calls and the same remote world as the dedicated route on the
  equivalent request: for \<open>list\<close> the request whose query path is the body's path and
  whose key is the same, for the other two the same request. With any other action, or
  none, an authorized request is answered 400 with the invalid-action message and no
  remote call.
\<close>

theorem combined_route_matches_dedicated:
  "(express_json raw = Some req \<and> express_json raw' = Some req' \<and>
      body_action (body req) = Some ''list'' \<and> query_path req' = body_path (body req) \<and>
      x_api_key req' = x_api_key req \<longrightarrow>
      app cfg octo POST_api_claude raw w = app cfg octo GET_api_list raw' w)
   \<and> (express_json raw = Some req \<and> body_action (body req) = Some ''delete'' \<longrightarrow>
      app cfg octo POST_api_claude raw w = app cfg octo POST_api_delete raw w)
   \<and> (express_json raw = Some req \<and> body_action (body req) = Some ''create'' \<longrightarrow>
      app cfg octo POST_api_claude raw w = app cfg octo POST_api_create raw w)
   \<and> (express_json raw = Some req \<and> authorized cfg req \<and>
      body_action (body req) \<notin> {Some ''list'', Some ''delete'', Some ''create''} \<longrightarrow>
      app cfg octo POST_api_claude raw w =
        (\<lparr>status = 400,
          json_body = JObject
            [(''error'', JString (''Invalid action. Use 'list', 'delete', or 'create'' @ [CHR 0x27]))]\<rparr>,
         [], w))"
proof (intro conjI impI)
  assume a: "express_json raw = Some req \<and> express_json raw' = Some req' \<and>
      body_action (body req) = Some ''list'' \<and> query_path req' = body_path (body req) \<and>
      x_api_key req' = x_api_key req"
  then have "api_claude cfg octo req w = api_list cfg octo req' w"
    by (simp add: api_claude_list)
  with a have "checkApiKey cfg req (api_claude cfg octo req) w =
                 checkApiKey cfg req' (api_list cfg octo req') w"
    by (intro checkApiKey_cong) simp_all
  with a show "app cfg octo POST_api_claude raw w = app cfg octo GET_api_list raw' w"
    by (simp add: app_parsed)
next
  assume a: "express_json raw = Some req \<and> body_action (body req) = Some ''delete''"
  then have "api_claude cfg octo req w = api_delete cfg octo req w"
    by (simp add: api_claude_delete)
  then have "checkApiKey cfg req (api_claude cfg octo req) w =
               checkApiKey cfg req (api_delete cfg octo req) w"
    by (intro checkApiKey_cong) simp_all
  with a show "app cfg octo POST_api_claude raw w = app cfg octo POST_api_delete raw w"
    by (simp add: app_parsed)
next
  assume a: "express_json raw = Some req \<and> body_action (body req) = Some ''create''"
  then have "api_claude cfg octo req w = api_create cfg octo req w"
    by (simp add: api_claude_create)
  then have "checkApiKey cfg req (api_claude cfg octo req) w =
               checkApiKey cfg req (api_create cfg octo req) w"
    by (intro checkApiKey_cong) simp_all
  with a show "app cfg octo POST_api_claude raw w = app cfg octo POST_api_create raw w"
    by (simp add: app_parsed)
next
  assume "express_json raw = Some req \<and> authorized cfg req \<and>
      body_action (body req) \<notin> {Some ''list'', Some ''delete'', Some ''create''}"
  then show "app cfg octo POST_api_claude raw w =
        (\<lparr>status = 400,
          json_body = JObject
            [(''error'', JString (''Invalid action. Use 'list', 'delete', or 'create'' @ [CHR 0x27]))]\<rparr>,
         [], w)"
    by (simp add: app_authorized api_claude_other invalid_action_def)
qed

theorem combined_route_matches_dedicated_witness:
  "app sample_config sample_octokit POST_api_claude
       (sample_raw (Some ''s3cret'') (sample_payload (Some ''list'') (Some ''docs'') None)) 0 =
     app sample_config sample_octokit GET_api_list
       (sample_raw (Some ''s3cret'') (sample_payload None (Some ''docs'') None)) 0
   \<and> app sample_config sample_octokit POST_api_claude
       (sample_raw (Some ''s3cret'') (sample_payload (Some ''delete'') (Some ''docs'') None)) 0 =
     app sample_config sample_octokit POST_api_delete
       (sample_raw (Some ''s3cret'') (sample_payload (Some ''delete'') (Some ''docs'') None)) 0
   \<and> app sample_config sample_octokit POST_api_claude
       (sample_raw (Some ''s3cret'') (sample_payload (Some ''create'') (Some ''a.txt'') (Some content_hi))) 0 =
     app sample_config sample_octokit POST_api_create
       (sample_raw (Some ''s3cret'') (sample_payload (Some ''create'') (Some ''a.txt'') (Some content_hi))) 0
   \<and> app sample_config sample_octokit POST_api_claude
       (sample_raw (Some ''s3cret'') (sample_payload (Some ''move'') (Some ''a.txt'') None)) 0 =
     (\<lparr>status = 400,
       json_body = JObject
         [(''error'', JString (''Invalid action. Use 'list', 'delete', or 'create'' @ [CHR 0x27]))]\<rparr>,
      [], 0)"
proof (intro conjI)
  show "app sample_config sample_octokit POST_api_claude
       (sample_raw (Some ''s3cret'') (sample_payload (Some ''list'') (Some ''docs'') None)) 0 =
     app sample_config sample_octokit GET_api_list
       (sample_raw (Some ''s3cret'') (sample_payload None (Some ''docs'') None)) 0"
    by (rule combined_route_matches_dedicated
               [where req = "sample_request (Some ''s3cret'') (sample_payload (Some ''list'') (Some ''docs'') None)"
                  and req' = "sample_request (Some ''s3cret'') (sample_payload None (Some ''docs'') None)",
                THEN conjunct1, THEN mp])
       (simp add: sample_parsed, simp add: sample_request_def sample_payload_def)
  show "app sample_config sample_octokit POST_api_claude
       (sample_raw (Some ''s3cret'') (sample_payload (Some ''delete'') (Some ''docs'') None)) 0 =
     app sample_config sample_octokit POST_api_delete
       (sample_raw (Some ''s3cret'') (sample_payload (Some ''delete'') (Some ''docs'') None)) 0"
    by (rule combined_route_matches_dedicated
               [where req = "sample_request (Some ''s3cret'') (sample_payload (Some ''delete'') (Some ''docs'') None)",
                THEN conjunct2, THEN conjunct1, THEN mp])
       (simp add: sample_parsed, simp add: sample_request_def sample_payload_def)
  show "app sample_config sample_octokit POST_api_claude
       (sample_raw (Some ''s3cret'') (sample_payload (Some ''create'') (Some ''a.txt'') (Some content_hi))) 0 =
     app sample_config sample_octokit POST_api_create
       (sample_raw (Some ''s3cret'') (sample_payload (Some ''create'') (Some ''a.txt'') (Some content_hi))) 0"
    by (rule combined_route_matches_dedicated
               [where req = "sample_request (Some ''s3cret'')
                               (sample_payload (Some ''create'') (Some ''a.txt'') (Some content_hi))",
                THEN conjunct2, THEN conjunct2, THEN conjunct1, THEN mp])
       (simp add: sample_parsed, simp add: sample_request_def sample_payload_def)
  show "app sample_config sample_octokit POST_api_claude
       (sample_raw (Some ''s3cret'') (sample_payload (Some ''move'') (Some ''a.txt'') None)) 0 =
     (\<lparr>status = 400,
       json_body = JObject
         [(''error'', JString (''Invalid action. Use 'list', 'delete', or 'create'' @ [CHR 0x27]))]\<rparr>,
      [], 0)"
    by (rule combined_route_matches_dedicated
               [where req = "sample_request (Some ''s3cret'') (sample_payload (Some ''move'') (Some ''a.txt'') None)",
                THEN conjunct2, THEN conjunct2, THEN conjunct2, THEN mp])
       (simp add: sample_parsed authorized_sample, simp add: sample_request_def sample_payload_def)
qed

text \<open>
  C4, as stated: for every authorized create request, a failed lookup is followed by a
  write call without sha. It fails when the content is truthy but not a string: the
  lookup is made, then \<open>Buffer.from\<close> throws, the answer is 500 and no write call is made.
\<close>

theorem create_non_string_content_counterexample:
  "app sample_config sample_octokit POST_api_create
       (sample_raw (Some ''s3cret'') (sample_payload None (Some ''b.txt'') (Some (JsNumber 5)))) 0 =
     (\<lparr>status = 500,
       json_body = JObject [(''error'', JString
         (''The first argument must be of type string or an instance of Buffer, ArrayBuffer, or Array or an Array-like Object.'' @
          '' Received type number (5)''))]\<rparr>,
      [GetContent \<lparr>g_owner = Some ''octo'', g_repo = Some ''repo'', g_path = ''b.txt''\<rparr>], 0)"
proof -
  have thrown: "Buffer_from (Some (JsNumber 5)) =
      Inl (Error (''The first argument must be of type string or an instance of Buffer, ArrayBuffer, or Array or an Array-like Object.'' @
                  '' Received type number (5)''))"
    by code_simp
  have "api_create sample_config sample_octokit
          (sample_request (Some ''s3cret'') (sample_payload None (Some ''b.txt'') (Some (JsNumber 5)))) 0 =
     (\<lparr>status = 500,
       json_body = JObject [(''error'', JString
         (''The first argument must be of type string or an instance of Buffer, ArrayBuffer, or Array or an Array-like Object.'' @
          '' Received type number (5)''))]\<rparr>,
      [GetContent \<lparr>g_owner = REPO_OWNER sample_config, g_repo = REPO_NAME sample_config, g_path = ''b.txt''\<rparr>], 0)"
    using api_create_type_error
            [where req = "sample_request (Some ''s3cret'') (sample_payload None (Some ''b.txt'') (Some (JsNumber 5)))"
               and cfg = sample_config and octo = sample_octokit and p = "''b.txt''" and w = 0
               and lookup = "Inl (Error ''Not Found'')"
               and e = "Error (''The first argument must be of type string or an instance of Buffer, ArrayBuffer, or Array or an Array-like Object.'' @
                  '' Received type number (5)'')"]
    by (simp add: thrown sample_request_def sample_payload_def falsy_value_def sample_octokit_def)
  then show ?thesis
    unfolding app_authorized(3)[OF sample_parsed authorized_sample]
    by (simp add: sample_config_def)
qed

text \<open>
  C4, amended: an authorized create with a path and a non-empty content string looks the
  path up and then writes. When the lookup fails the write call carries no sha; when it
  returns a file entry the write call carries that entry's sha (a directory listing has
  none). The response is decided by the write alone: a failed lookup never produces an
  error response.
\<close>

theorem create_sha_from_lookup:
  assumes "express_json raw = Some req" and "authorized cfg req"
    and "body_path (body req) = Some p" and "p \<noteq> []"
    and "body_content (body req) = Some (JsString c)" and "c \<noteq> []"
    and "getContent octo \<lparr>g_owner = REPO_OWNER cfg, g_repo = REPO_NAME cfg, g_path = p\<rparr> w = (lookup, w')"
    and "createOrUpdateFileContents octo
           \<lparr>w_owner = REPO_OWNER cfg, w_repo = REPO_NAME cfg, w_path = p,
            w_message = or_default (body_message (body req)) (''Update '' @ p),
            w_content = toString_base64 (utf8_encode c),
            w_sha = (case lookup of Inl error \<Rightarrow> None | Inr (Single e) \<Rightarrow> Some (entry_sha e)
                     | Inr (Listing items) \<Rightarrow> None)\<rparr> w' = (written, w'')"
  shows "app cfg octo POST_api_create raw w =
           ((case written of
               Inr u \<Rightarrow> \<lparr>status = 200, json_body = JObject [(''success'', JBool True),
                                                           (''message'', JString (''Updated '' @ p))]\<rparr>
             | Inl error \<Rightarrow> \<lparr>status = 500, json_body = JObject [(''error'', JString (message error))]\<rparr>),
            [GetContent \<lparr>g_owner = REPO_OWNER cfg, g_repo = REPO_NAME cfg, g_path = p\<rparr>,
             CreateOrUpdate
               \<lparr>w_owner = REPO_OWNER cfg, w_repo = REPO_NAME cfg, w_path = p,
                w_message = or_default (body_message (body req)) (''Update '' @ p),
                w_content = toString_base64 (utf8_encode c),
                w_sha = (case lookup of Inl error \<Rightarrow> None | Inr (Single e) \<Rightarrow> Some (entry_sha e)
                         | Inr (Listing items) \<Rightarrow> None)\<rparr>],
            w'')"
  using assms(1,2) api_create_run[OF assms(3-8)] by (simp add: app_authorized)

theorem create_sha_from_lookup_witness:
  "app sample_config sample_octokit POST_api_create
       (sample_raw (Some ''s3cret'') (sample_payload None (Some ''b.txt'') (Some content_hi))) 0 =
     (\<lparr>status = 200, json_body = JObject [(''success'', JBool True), (''message'', JString ''Updated b.txt'')]\<rparr>,
      [GetContent \<lparr>g_owner = Some ''octo'', g_repo = Some ''repo'', g_path = ''b.txt''\<rparr>,
       CreateOrUpdate \<lparr>w_owner = Some ''octo'', w_repo = Some ''repo'', w_path = ''b.txt'',
                       w_message = ''Update b.txt'', w_content = ''aGk='', w_sha = None\<rparr>],
      1)
   \<and> app sample_config sample_octokit POST_api_create
       (sample_raw (Some ''s3cret'') (sample_payload None (Some ''a.txt'') (Some content_hi))) 0 =
     (\<lparr>status = 200, json_body = JObject [(''success'', JBool True), (''message'', JString ''Updated a.txt'')]\<rparr>,
      [GetContent \<lparr>g_owner = Some ''octo'', g_repo = Some ''repo'', g_path = ''a.txt''\<rparr>,
       CreateOrUpdate \<lparr>w_owner = Some ''octo'', w_repo = Some ''repo'', w_path = ''a.txt'',
                       w_message = ''Update a.txt'', w_content = ''aGk='', w_sha = Some ''ee''\<rparr>],
      1)"
proof (intro conjI)
  show "app sample_config sample_octokit POST_api_create
       (sample_raw (Some ''s3cret'') (sample_payload None (Some ''b.txt'') (Some content_hi))) 0 =
     (\<lparr>status = 200, json_body = JObject [(''success'', JBool True), (''message'', JString ''Updated b.txt'')]\<rparr>,
      [GetContent \<lparr>g_owner = Some ''octo'', g_repo = Some ''repo'', g_path = ''b.txt''\<rparr>,
       CreateOrUpdate \<lparr>w_owner = Some ''octo'', w_repo = Some ''repo'', w_path = ''b.txt'',
                       w_message = ''Update b.txt'', w_content = ''aGk='', w_sha = None\<rparr>],
      1)"
    using create_sha_from_lookup
          [OF sample_parsed [where key = "Some ''s3cret''"
                               and b = "sample_payload None (Some ''b.txt'') (Some content_hi)"]
              authorized_sample,
           where octo = sample_octokit and w = 0 and w' = 0 and w'' = 1 and p = "''b.txt''"
             and c = "[0x68, 0x69]" and lookup = "Inl (Error ''Not Found'')" and written = "Inr ()"]
    by (simp add: sample_hi_base64 content_hi_def sample_request_def sample_payload_def
          sample_octokit_def sample_config_def or_default_def)
  show "app sample_config sample_octokit POST_api_create
       (sample_raw (Some ''s3cret'') (sample_payload None (Some ''a.txt'') (Some content_hi))) 0 =
     (\<lparr>status = 200, json_body = JObject [(''success'', JBool True), (''message'', JString ''Updated a.txt'')]\<rparr>,
      [GetContent \<lparr>g_owner = Some ''octo'', g_repo = Some ''repo'', g_path = ''a.txt''\<rparr>,
       CreateOrUpdate \<lparr>w_owner = Some ''octo'', w_repo = Some ''repo'', w_path = ''a.txt'',
                       w_message = ''Update a.txt'', w_content = ''aGk='', w_sha = Some ''ee''\<rparr>],
      1)"
    using create_sha_from_lookup
          [OF sample_parsed [where key = "Some ''s3cret''"
                               and b = "sample_payload None (Some ''a.txt'') (Some content_hi)"]
              authorized_sample,
           where octo = sample_octokit and w = 0 and w' = 0 and w'' = 1 and p = "''a.txt''"
             and c = "[0x68, 0x69]"
             and lookup = "Inr (Single \<lparr>entry_path = ''a.txt'', entry_type = ''file'', entry_sha = ''ee''\<rparr>)"
             and written = "Inr ()"]
    by (simp add: sample_hi_base64 content_hi_def sample_request_def sample_payload_def
          sample_octokit_def sample_config_def or_default_def)
qed

text \<open>
  C5, as stated: decoding the transmitted content gives the submitted content back. It
  fails for a content string with an unpaired surrogate: \<open>Buffer.from\<close> encodes the
  surrogate as U+FFFD, so the transmitted \<open>77+9\<close> decodes to U+FFFD, not to the
  submitted U+D800.
\<close>

theorem create_lone_surrogate_counterexample:
  "map decode_text (transmitted_content (fst (snd (app sample_config sample_octokit POST_api_create
       (sample_raw (Some ''s3cret'') (sample_payload None (Some ''b.txt'') (Some content_lone_surrogate)))
       0)))) = [Some [0xFFFD]]
   \<and> [Some [0xFFFD]] \<noteq> [Some [0xD800 :: 16 word]]"
proof -
  have "api_create sample_config sample_octokit
          (sample_request (Some ''s3cret'') (sample_payload None (Some ''b.txt'') (Some content_lone_surrogate))) 0 =
     (\<lparr>status = 200, json_body = JObject [(''success'', JBool True), (''message'', JString ''Updated b.txt'')]\<rparr>,
      [GetContent \<lparr>g_owner = REPO_OWNER sample_config, g_repo = REPO_NAME sample_config, g_path = ''b.txt''\<rparr>,
       CreateOrUpdate \<lparr>w_owner = REPO_OWNER sample_config, w_repo = REPO_NAME sample_config,
                       w_path = ''b.txt'', w_message = ''Update b.txt'', w_content = ''77+9'',
                       w_sha = None\<rparr>],
      1)"
    using api_create_run
          [where req = "sample_request (Some ''s3cret'')
                          (sample_payload None (Some ''b.txt'') (Some content_lone_surrogate))"
             and cfg = sample_config and octo = sample_octokit and w = 0 and ?w1.0 = 0 and ?w2.0 = 1
             and p = "''b.txt''" and c = "[0xD800]" and lookup = "Inl (Error ''Not Found'')"
             and written = "Inr ()"]
    by (simp add: sample_lone_surrogate_base64 content_lone_surrogate_def sample_request_def
          sample_payload_def sample_octokit_def or_default_def)
  then have "transmitted_content (fst (snd (app sample_config sample_octokit POST_api_create
       (sample_raw (Some ''s3cret'') (sample_payload None (Some ''b.txt'') (Some content_lone_surrogate)))
       0))) = [''77+9'']"
    by (simp add: app_authorized[OF sample_parsed authorized_sample] transmitted_content_create)
  then show ?thesis
    by (simp add: sample_lone_surrogate_decoded)
qed

text \<open>
  C5, amended: in every authorized create with a path and a non-empty content string, the
  content handed to the write call is the base64 encoding of the UTF-8 encoding of the
  submitted string, and base64-decoding it gives exactly those bytes; when the submitted
  string has no unpaired surrogate, decoding the bytes gives the submitted string back.
\<close>

theorem create_content_base64_roundtrip:
  assumes "express_json raw = Some req" and "authorized cfg req"
    and "body_path (body req) = Some p" and "p \<noteq> []"
    and "body_content (body req) = Some (JsString c)" and "c \<noteq> []"
  shows "transmitted_content (fst (snd (app cfg octo POST_api_create raw w))) =
           [toString_base64 (utf8_encode c)]
         \<and> base64_decode (toString_base64 (utf8_encode c)) = Some (utf8_encode c)
         \<and> (well_formed (map unat c) \<longrightarrow>
              map decode_text (transmitted_content (fst (snd (app cfg octo POST_api_create raw w)))) =
                [Some c])"
proof -
  obtain lookup w' where l:
    "getContent octo \<lparr>g_owner = REPO_OWNER cfg, g_repo = REPO_NAME cfg, g_path = p\<rparr> w = (lookup, w')"
    by (cases "getContent octo \<lparr>g_owner = REPO_OWNER cfg, g_repo = REPO_NAME cfg, g_path = p\<rparr> w")
  obtain written w'' where wr:
    "createOrUpdateFileContents octo
           \<lparr>w_owner = REPO_OWNER cfg, w_repo = REPO_NAME cfg, w_path = p,
            w_message = or_default (body_message (body req)) (''Update '' @ p),
            w_content = toString_base64 (utf8_encode c),
            w_sha = (case lookup of Inl error \<Rightarrow> None | Inr (Single e) \<Rightarrow> Some (entry_sha e)
                     | Inr (Listing items) \<Rightarrow> None)\<rparr> w' = (written, w'')"
    by (cases "createOrUpdateFileContents octo
           \<lparr>w_owner = REPO_OWNER cfg, w_repo = REPO_NAME cfg, w_path = p,
            w_message = or_default (body_message (body req)) (''Update '' @ p),
            w_content = toString_base64 (utf8_encode c),
            w_sha = (case lookup of Inl error \<Rightarrow> None | Inr (Single e) \<Rightarrow> Some (entry_sha e)
                     | Inr (Listing items) \<Rightarrow> None)\<rparr> w'")
  have sent: "transmitted_content (fst (snd (app cfg octo POST_api_create raw w))) =
           [toString_base64 (utf8_encode c)]"
    using assms(1,2) api_create_run[OF assms(3-6) l wr]
    by (simp add: app_authorized transmitted_content_create)
  show ?thesis
    using sent by (simp add: base64_utf8_roundtrip decode_text_encode)
qed

theorem create_content_base64_roundtrip_witness:
  "transmitted_content (fst (snd (app sample_config sample_octokit POST_api_create
       (sample_raw (Some ''s3cret'') (sample_payload None (Some ''b.txt'') (Some content_hi))) 0))) = [''aGk='']
   \<and> map decode_text (transmitted_content (fst (snd (app sample_config sample_octokit POST_api_create
       (sample_raw (Some ''s3cret'') (sample_payload None (Some ''b.txt'') (Some content_hi))) 0)))) =
     [Some [0x68, 0x69]]"
proof -
  have wf: "well_formed (map unat [0x68, 0x69 :: 16 word])"
    by (simp add: is_high_surrogate_def is_low_surrogate_def)
  have "transmitted_content (fst (snd (app sample_config sample_octokit POST_api_create
       (sample_raw (Some ''s3cret'') (sample_payload None (Some ''b.txt'') (Some content_hi))) 0))) =
           [toString_base64 (utf8_encode [0x68, 0x69])]
     \<and> base64_decode (toString_base64 (utf8_encode [0x68, 0x69])) = Some (utf8_encode [0x68, 0x69])
     \<and> (well_formed (map unat [0x68, 0x69 :: 16 word]) \<longrightarrow>
          map decode_text (transmitted_content (fst (snd (app sample_config sample_octokit POST_api_create
            (sample_raw (Some ''s3cret'') (sample_payload None (Some ''b.txt'') (Some content_hi))) 0)))) =
           [Some [0x68, 0x69]])"
    by (rule create_content_base64_roundtrip [OF sample_parsed authorized_sample, where p = "''b.txt''"])
       (simp_all add: sample_request_def sample_payload_def content_hi_def)
  with wf show ?thesis
    unfolding sample_hi_base64 by blast
qed

text \<open>
  C6. An authorized delete with a non-empty path whose content lookup fails is answered
  404; the error text starts with \<open>File not found:\<close> and carries the remote message;
  the only remote call is the lookup, so no delete is issued.
\<close>

theorem delete_unresolved_path_404:
  assumes "express_json raw = Some req" and "authorized cfg req"
    and "body_path (body req) = Some p" and "p \<noteq> []"
    and "getContent octo \<lparr>g_owner = REPO_OWNER cfg, g_repo = REPO_NAME cfg, g_path = p\<rparr> w = (Inl e, w')"
  shows "app cfg octo POST_api_delete raw w =
           (\<lparr>status = 404, json_body = JObject [(''error'', JString (''File not found: '' @ message e))]\<rparr>,
            [GetContent \<lparr>g_owner = REPO_OWNER cfg, g_repo = REPO_NAME cfg, g_path = p\<rparr>], w')
         \<and> sublist ''File not found:'' (error_text (fst (app cfg octo POST_api_delete raw w)))"
proof -
  have run: "app cfg octo POST_api_delete raw w =
           (\<lparr>status = 404, json_body = JObject [(''error'', JString (''File not found: '' @ message e))]\<rparr>,
            [GetContent \<lparr>g_owner = REPO_OWNER cfg, g_repo = REPO_NAME cfg, g_path = p\<rparr>], w')"
    using assms by (simp add: app_authorized api_delete_not_found)
  have "prefix ''File not found:'' (''File not found: '' @ message e)"
    by simp
  then have "sublist ''File not found:'' (''File not found: '' @ message e)"
    by (rule prefix_imp_sublist)
  then show ?thesis
    using run by (simp add: error_text_def field_def)
qed

theorem delete_unresolved_path_404_witness:
  "app sample_config sample_octokit POST_api_delete
       (sample_raw (Some ''s3cret'') (sample_payload None (Some ''nope'') None)) 0 =
     (\<lparr>status = 404, json_body = JObject [(''error'', JString ''File not found: Not Found'')]\<rparr>,
      [GetContent \<lparr>g_owner = Some ''octo'', g_repo = Some ''repo'', g_path = ''nope''\<rparr>], 0)"
  using delete_unresolved_path_404
          [OF sample_parsed [where key = "Some ''s3cret''"
                               and b = "sample_payload None (Some ''nope'') None"]
              authorized_sample,
           where octo = sample_octokit and p = "''nope''" and w = 0
             and e = "Error ''Not Found''" and w' = 0]
  by (simp add: sample_config_def sample_octokit_def sample_request_def sample_payload_def)

text \<open>
  C7. For an authorized request, delete answers 400 when the body has no path, and create
  answers 400 when the path or the content is missing or the content is empty. Whenever
  either handler answers 400, the call log is empty and the remote world is untouched.
\<close>

theorem missing_fields_400:
  assumes "express_json raw = Some req" and "authorized cfg req"
  shows "(body_path (body req) = None \<longrightarrow>
            app cfg octo POST_api_delete raw w =
              (\<lparr>status = 400, json_body = JObject [(''error'', JString ''Path is required'')]\<rparr>, [], w))
       \<and> (body_path (body req) = None \<or> body_content (body req) = None \<or>
            body_content (body req) = Some (JsString []) \<longrightarrow>
            app cfg octo POST_api_create raw w =
              (\<lparr>status = 400, json_body = JObject [(''error'', JString ''Path and content are required'')]\<rparr>, [], w))
       \<and> (status (fst (app cfg octo POST_api_delete raw w)) = 400 \<longrightarrow>
            snd (app cfg octo POST_api_delete raw w) = ([], w))
       \<and> (status (fst (app cfg octo POST_api_create raw w)) = 400 \<longrightarrow>
            snd (app cfg octo POST_api_create raw w) = ([], w))"
proof (intro conjI impI)
  assume "body_path (body req) = None"
  then have "falsy (body_path (body req))" by (simp add: falsy_def)
  then show "app cfg octo POST_api_delete raw w =
              (\<lparr>status = 400, json_body = JObject [(''error'', JString ''Path is required'')]\<rparr>, [], w)"
    using assms by (simp add: app_authorized api_delete_missing_path)
next
  assume "body_path (body req) = None \<or> body_content (body req) = None \<or>
            body_content (body req) = Some (JsString [])"
  then have "falsy (body_path (body req)) \<or> falsy_value (body_content (body req))"
    by (auto simp add: falsy_def falsy_value_def)
  then show "app cfg octo POST_api_create raw w =
              (\<lparr>status = 400, json_body = JObject [(''error'', JString ''Path and content are required'')]\<rparr>, [], w)"
    using assms by (simp add: app_authorized api_create_missing)
next
  assume "status (fst (app cfg octo POST_api_delete raw w)) = 400"
  then show "snd (app cfg octo POST_api_delete raw w) = ([], w)"
    using assms by (simp add: app_authorized api_delete_400_no_call)
next
  assume "status (fst (app cfg octo POST_api_create raw w)) = 400"
  then show "snd (app cfg octo POST_api_create raw w) = ([], w)"
    using assms by (simp add: app_authorized api_create_400_no_call)
qed

theorem missing_fields_400_witness:
  "app sample_config sample_octokit POST_api_delete
       (sample_raw (Some ''s3cret'') (sample_payload None None None)) 0 =
     (\<lparr>status = 400, json_body = JObject [(''error'', JString ''Path is required'')]\<rparr>, [], 0)
   \<and> app sample_config sample_octokit POST_api_create
       (sample_raw (Some ''s3cret'') (sample_payload None (Some ''a.txt'') (Some (JsString [])))) 0 =
     (\<lparr>status = 400, json_body = JObject [(''error'', JString ''Path and content are required'')]\<rparr>, [], 0)
   \<and> snd (app sample_config sample_octokit POST_api_delete
       (sample_raw (Some ''s3cret'') (sample_payload None None None)) 0) = ([], 0)
   \<and> snd (app sample_config sample_octokit POST_api_create
       (sample_raw (Some ''s3cret'') (sample_payload None (Some ''a.txt'') (Some (JsString [])))) 0) = ([], 0)"
  using missing_fields_400
          [OF sample_parsed [where key = "Some ''s3cret''" and b = "sample_payload None None None"]
              authorized_sample,
           where octo = sample_octokit and w = 0]
        missing_fields_400
          [OF sample_parsed [where key = "Some ''s3cret''"
                               and b = "sample_payload None (Some ''a.txt'') (Some (JsString []))"]
              authorized_sample,
           where octo = sample_octokit and w = 0]
  by (simp add: sample_request_def sample_payload_def)

text \<open>
  C8, as stated: every element of \<open>results\<close> has a boolean \<open>success\<close>, a \<open>path\<close> and
  a \<open>message\<close>. It fails on the sample directory: the loop pushes
  \<open>{success: true, path}\<close> or \<open>{error, path}\<close>, and neither has a \<open>message\<close>.
\<close>

theorem results_uniform_shape_counterexample:
  "\<not> list_all OperationResult_shape
       (results_of (fst (app sample_config sample_octokit POST_api_delete
          (sample_raw (Some ''s3cret'') (sample_payload None (Some ''docs'') None)) 0)))"
  unfolding app_authorized(2)[OF sample_parsed authorized_sample]
  by (simp add: sample_docs_results OperationResult_shape_def field_def)

text \<open>
  C8, amended: in a directory delete, the element of \<open>results\<close> for each file entry has
  that entry's \<open>path\<close> and no \<open>message\<close>; when the entry's delete succeeded it has
  \<open>success: true\<close> and no \<open>error\<close>, and when it failed it has the thrown error's
  message as \<open>error\<close> and no \<open>success\<close>.
\<close>

theorem results_item_shape:
  assumes "express_json raw = Some req" and "authorized cfg req"
    and "body_path (body req) = Some p" and "p \<noteq> []"
    and "getContent octo \<lparr>g_owner = REPO_OWNER cfg, g_repo = REPO_NAME cfg, g_path = p\<rparr> w =
           (Inr (Listing items), w')"
    and "delete_outcomes octo (map (delete_args_of cfg) (file_entries items)) w' = (outcomes, w'')"
  shows "list_all2 outcome_shape (results_of (fst (app cfg octo POST_api_delete raw w)))
           (zip (file_entries items) outcomes)
         \<and> length outcomes = length (file_entries items)"
proof -
  have len: "length (file_entries items) = length outcomes"
    using delete_outcomes_length[of octo "map (delete_args_of cfg) (file_entries items)" w'] assms(6)
    by simp
  have "results_of (fst (app cfg octo POST_api_delete raw w)) =
          map2 item_result (file_entries items) outcomes"
    using assms(1,2,6) api_delete_directory[OF assms(3-5)]
    by (simp add: app_authorized results_of_def field_def)
  then show ?thesis
    using len map2_item_result_outcome_shape[OF len] by simp
qed

theorem results_item_shape_witness:
  "list_all2 outcome_shape
     (results_of (fst (app sample_config sample_octokit POST_api_delete
        (sample_raw (Some ''s3cret'') (sample_payload None (Some ''docs'') None)) 0)))
     [(\<lparr>entry_path = ''docs/readme.md'', entry_type = ''file'', entry_sha = ''aa''\<rparr>, Inr ()),
      (\<lparr>entry_path = ''docs/notes.md'', entry_type = ''file'', entry_sha = ''cc''\<rparr>,
       Inl (Error ''sha mismatch'')),
      (\<lparr>entry_path = ''docs/todo.md'', entry_type = ''file'', entry_sha = ''dd''\<rparr>, Inr ())]"
proof -
  have nonempty: "''docs'' \<noteq> []" by simp
  have "list_all2 outcome_shape
     (results_of (fst (app sample_config sample_octokit POST_api_delete
        (sample_raw (Some ''s3cret'') (sample_payload None (Some ''docs'') None)) 0)))
     (zip (file_entries sample_docs) [Inr (), Inl (Error ''sha mismatch''), Inr ()])"
    using results_item_shape
            [OF sample_parsed authorized_sample sample_docs_path nonempty sample_docs_lookup
                sample_docs_outcomes]
    by (rule conjunct1)
  then show ?thesis
    by (simp only: sample_docs_files zip_Cons_Cons zip_Nil)
qed

text \<open>
  C9. An authorized create with a path and non-empty content whose write succeeds is
  answered 200 with \<open>{success: true, message: "Updated <path>"}\<close>; and when the
  request carries no commit message, the write call's commit message is
  \<open>Update <path>\<close>.
\<close>

theorem create_success_and_default_message:
  assumes "express_json raw = Some req" and "authorized cfg req"
    and "body_path (body req) = Some p" and "p \<noteq> []"
    and "body_content (body req) = Some (JsString c)" and "c \<noteq> []"
    and "getContent octo \<lparr>g_owner = REPO_OWNER cfg, g_repo = REPO_NAME cfg, g_path = p\<rparr> w = (lookup, w')"
    and "createOrUpdateFileContents octo
           \<lparr>w_owner = REPO_OWNER cfg, w_repo = REPO_NAME cfg, w_path = p,
            w_message = or_default (body_message (body req)) (''Update '' @ p),
            w_content = toString_base64 (utf8_encode c),
            w_sha = (case lookup of Inl error \<Rightarrow> None | Inr (Single e) \<Rightarrow> Some (entry_sha e)
                     | Inr (Listing items) \<Rightarrow> None)\<rparr> w' = (Inr u, w'')"
  shows "fst (app cfg octo POST_api_create raw w) =
           \<lparr>status = 200,
            json_body = JObject [(''success'', JBool True), (''message'', JString (''Updated '' @ p))]\<rparr>
         \<and> (body_message (body req) = None \<longrightarrow>
              commit_messages (fst (snd (app cfg octo POST_api_create raw w))) = [''Update '' @ p])"
  using assms(1,2) api_create_run[OF assms(3-8)]
  by (simp add: app_authorized commit_messages_create or_default_def)

theorem create_success_and_default_message_witness:
  "fst (app sample_config sample_octokit POST_api_create
       (sample_raw (Some ''s3cret'') (sample_payload None (Some ''a.txt'') (Some content_hi))) 0) =
     \<lparr>status = 200, json_body = JObject [(''success'', JBool True), (''message'', JString ''Updated a.txt'')]\<rparr>
   \<and> commit_messages (fst (snd (app sample_config sample_octokit POST_api_create
       (sample_raw (Some ''s3cret'') (sample_payload None (Some ''a.txt'') (Some content_hi))) 0))) =
     [''Update a.txt'']"
  using create_success_and_default_message
          [OF sample_parsed [where key = "Some ''s3cret''"
                               and b = "sample_payload None (Some ''a.txt'') (Some content_hi)"]
              authorized_sample,
           where octo = sample_octokit and w = 0 and w' = 0 and w'' = 1 and p = "''a.txt''"
             and c = "[0x68, 0x69]"
             and lookup = "Inr (Single \<lparr>entry_path = ''a.txt'', entry_type = ''file'', entry_sha = ''ee''\<rparr>)"
             and u = "()"]
  by (simp add: content_hi_def sample_request_def sample_payload_def sample_octokit_def sample_config_def)




end
